theory Spec2Isabelle
  imports Main
begin

section \<open>Values of the host language\<close>

text \<open>
  The library is TypeScript; at run time its functions receive arbitrary JavaScript
  values. A value is a primitive, a reference to an object of the heap, or a promise.
  Objects have identity: two references are the same value exactly when they are the same
  address, whatever the objects hold. The not-a-number value is kept apart from the other
  numbers because strict equality is not reflexive on it. Symbols and big integers are not
  represented.

  A promise is represented by an identity and by the way it eventually settles (the event
  loop is collapsed: the heap in which a promise is met is the heap at the time it has
  settled). Promises carry no properties of their own. An object that is merely thenable
  (it has a property \<open>then\<close> that can be called) is an object of the heap like any other.
\<close>

type_synonym addr = nat
type_synonym fid = nat

datatype jsval =
    JUndefined
  | JNull
  | JBool bool
  | JNum int
  | JNaN
  | JStr string
  | Ref addr
  | Promise nat settlement
and settlement =
    Fulfilled jsval
  | Rejected jsval
  | Pending

text \<open>
  An object is described by what the library can observe of it: its class, and the data
  properties that a lookup along the prototype chain finds, in the order of their
  definition. Being callable and being an instance of \<open>Function\<close> are two things, and the
  classes keep them apart:
  \<^item> \<open>PlainObj\<close>: not callable, neither \<open>Error.prototype\<close> nor \<open>Function.prototype\<close> on its
    prototype chain;
  \<^item> \<open>ErrorObj\<close>: not callable, an instance of \<open>Error\<close>;
  \<^item> \<open>FunctionObj f\<close>: an ordinary function, callable and an instance of \<open>Function\<close>; the
    identifier names its body;
  \<^item> \<open>CallableObj f\<close>: callable with body \<open>f\<close>, but not an instance of \<open>Function\<close> (a function
    whose prototype was replaced, as by \<^verbatim>\<open>Object.setPrototypeOf(f, null)\<close>, or a function of
    another realm);
  \<^item> \<open>FunctionInstObj\<close>: an instance of \<open>Function\<close> that is not callable (as made by
    \<^verbatim>\<open>Object.create(Function.prototype)\<close>).

  Accessor properties and proxies are not represented.
\<close>

datatype objclass = PlainObj | ErrorObj | FunctionObj fid | CallableObj fid | FunctionInstObj

record obj =
  cls :: objclass
  props :: "(string \<times> jsval) list"

type_synonym heap = "obj list"

definition obj_at :: "heap \<Rightarrow> addr \<Rightarrow> obj option" where
  "obj_at h a = (if a < length h then Some (h ! a) else None)"

text \<open>Raising is a value: a call completes normally with a value or throws one.\<close>

datatype completion = Normal jsval | Throw jsval

text \<open>
  The state threaded through the library: the heap, and the log of the calls that the
  library itself makes to functions it was given (the function and its argument list),
  oldest first.
\<close>

record state =
  heap :: heap
  trace :: "(fid \<times> jsval list) list"

text \<open>
  The bodies of the functions supplied by the caller: a body receives its arguments and the
  heap, and completes with a new heap. Bodies are total; a body that never returns is
  outside the model.
\<close>

type_synonym fenv = "fid \<Rightarrow> jsval list \<Rightarrow> heap \<Rightarrow> completion \<times> heap"

subsection \<open>Operators\<close>

text \<open>\<^verbatim>\<open>typeof v\<close>\<close>

definition typeof_js :: "heap \<Rightarrow> jsval \<Rightarrow> string" where
  "typeof_js h v =
     (case v of
        JUndefined \<Rightarrow> ''undefined''
      | JNull \<Rightarrow> ''object''
      | JBool b \<Rightarrow> ''boolean''
      | JNum n \<Rightarrow> ''number''
      | JNaN \<Rightarrow> ''number''
      | JStr t \<Rightarrow> ''string''
      | Ref a \<Rightarrow>
          (case obj_at h a of
             None \<Rightarrow> ''object''
           | Some ob \<Rightarrow>
               (case cls ob of
                  FunctionObj f \<Rightarrow> ''function''
                | CallableObj f \<Rightarrow> ''function''
                | _ \<Rightarrow> ''object''))
      | Promise i st \<Rightarrow> ''object'')"

text \<open>\<^verbatim>\<open>a === b\<close>\<close>

fun strict_eq :: "jsval \<Rightarrow> jsval \<Rightarrow> bool" where
  "strict_eq JUndefined JUndefined = True"
| "strict_eq JNull JNull = True"
| "strict_eq (JBool a) (JBool b) = (a = b)"
| "strict_eq (JNum a) (JNum b) = (a = b)"
| "strict_eq (JStr a) (JStr b) = (a = b)"
| "strict_eq (Ref a) (Ref b) = (a = b)"
| "strict_eq (Promise i st) (Promise j st') = (i = j)"
| "strict_eq _ _ = False"

text \<open>The conversion to a boolean that \<^verbatim>\<open>!v\<close>, \<^verbatim>\<open>v && w\<close> and \<^verbatim>\<open>if (v)\<close> apply.\<close>

fun truthy :: "jsval \<Rightarrow> bool" where
  "truthy JUndefined = False"
| "truthy JNull = False"
| "truthy (JBool b) = b"
| "truthy (JNum n) = (n \<noteq> 0)"
| "truthy JNaN = False"
| "truthy (JStr t) = (t \<noteq> [])"
| "truthy (Ref a) = True"
| "truthy (Promise i st) = True"

text \<open>\<^verbatim>\<open>k in v\<close>, for a \<open>v\<close> that is an object.\<close>

definition has_prop :: "heap \<Rightarrow> jsval \<Rightarrow> string \<Rightarrow> bool" where
  "has_prop h v k =
     (case v of
        Ref a \<Rightarrow> (case obj_at h a of None \<Rightarrow> False | Some ob \<Rightarrow> k \<in> set (map fst (props ob)))
      | _ \<Rightarrow> False)"

text \<open>\<^verbatim>\<open>v.k\<close>, for a \<open>v\<close> that is neither \<open>null\<close> nor \<open>undefined\<close>: a missing property reads as
  \<open>undefined\<close>.\<close>

definition get_prop :: "heap \<Rightarrow> jsval \<Rightarrow> string \<Rightarrow> jsval" where
  "get_prop h v k =
     (case v of
        Ref a \<Rightarrow>
          (case obj_at h a of
             None \<Rightarrow> JUndefined
           | Some ob \<Rightarrow> (case map_of (props ob) k of None \<Rightarrow> JUndefined | Some w \<Rightarrow> w))
      | _ \<Rightarrow> JUndefined)"

text \<open>\<^verbatim>\<open>v instanceof Error\<close>\<close>

definition instanceof_Error :: "heap \<Rightarrow> jsval \<Rightarrow> bool" where
  "instanceof_Error h v =
     (case v of
        Ref a \<Rightarrow> (case obj_at h a of None \<Rightarrow> False | Some ob \<Rightarrow> cls ob = ErrorObj)
      | _ \<Rightarrow> False)"

text \<open>The body that a call of \<open>v\<close> runs, when \<open>v\<close> can be called.\<close>

definition fn_of :: "heap \<Rightarrow> jsval \<Rightarrow> fid option" where
  "fn_of h v =
     (case v of
        Ref a \<Rightarrow>
          (case obj_at h a of
             None \<Rightarrow> None
           | Some ob \<Rightarrow>
               (case cls ob of
                  FunctionObj f \<Rightarrow> Some f
                | CallableObj f \<Rightarrow> Some f
                | _ \<Rightarrow> None))
      | _ \<Rightarrow> None)"

text \<open>\<^verbatim>\<open>v instanceof Function\<close>: whether \<open>Function.prototype\<close> is on the prototype chain of \<open>v\<close>.\<close>

definition instanceof_Function :: "heap \<Rightarrow> jsval \<Rightarrow> bool" where
  "instanceof_Function h v =
     (case v of
        Ref a \<Rightarrow>
          (case obj_at h a of
             None \<Rightarrow> False
           | Some ob \<Rightarrow>
               (case cls ob of
                  FunctionObj f \<Rightarrow> True
                | FunctionInstObj \<Rightarrow> True
                | _ \<Rightarrow> False))
      | _ \<Rightarrow> False)"

text \<open>An object literal \<^verbatim>\<open>{ k1: v1, k2: v2 }\<close> allocates a plain object at a fresh address.\<close>

definition alloc :: "obj \<Rightarrow> state \<Rightarrow> addr \<times> state" where
  "alloc ob s = (length (heap s), s\<lparr>heap := heap s @ [ob]\<rparr>)"

text \<open>\<^verbatim>\<open>throw new Error(msg)\<close> (and the errors the runtime itself throws)\<close>

definition throw_new_Error :: "string \<Rightarrow> state \<Rightarrow> completion \<times> state" where
  "throw_new_Error msg s =
     (case alloc \<lparr>cls = ErrorObj, props = [(''message'', JStr msg)]\<rparr> s of
        (a, s') \<Rightarrow> (Throw (Ref a), s'))"

text \<open>
  \<^verbatim>\<open>f(args)\<close>: the call is logged and the body runs on the heap; calling a value that is not
  a function throws a \<open>TypeError\<close>.
\<close>

definition call :: "fenv \<Rightarrow> jsval \<Rightarrow> jsval list \<Rightarrow> state \<Rightarrow> completion \<times> state" where
  "call env f args s =
     (case fn_of (heap s) f of
        None \<Rightarrow> throw_new_Error ''fn is not a function'' s
      | Some g \<Rightarrow>
          (case env g args (heap s) of
             (c, h') \<Rightarrow> (c, \<lparr>heap = h', trace = trace s @ [(g, args)]\<rparr>)))"

section \<open>result.ts\<close>

text \<open>\<^verbatim>\<open>export function ok<T>(value: NonNullable<T>): ResultOk<T> { return { ok: true, value }; }\<close>\<close>

definition ok :: "jsval \<Rightarrow> state \<Rightarrow> completion \<times> state" where
  "ok v s =
     (case alloc \<lparr>cls = PlainObj, props = [(''ok'', JBool True), (''value'', v)]\<rparr> s of
        (a, s') \<Rightarrow> (Normal (Ref a), s'))"

text \<open>\<^verbatim>\<open>export function err<E>(error: NonNullable<E>): ResultErr<E> { return { ok: false, error }; }\<close>\<close>

definition err :: "jsval \<Rightarrow> state \<Rightarrow> completion \<times> state" where
  "err e s =
     (case alloc \<lparr>cls = PlainObj, props = [(''ok'', JBool False), (''error'', e)]\<rparr> s of
        (a, s') \<Rightarrow> (Normal (Ref a), s'))"

section \<open>assert.ts\<close>

text \<open>
  \<^verbatim>\<open>
  return (typeof value === 'object' && value !== null && 'ok' in value &&
          typeof value.ok === 'boolean')
      && ((value.ok && 'value' in value) || (!value.ok && 'error' in value));
  \<close>
\<close>

definition isResult :: "heap \<Rightarrow> jsval \<Rightarrow> bool" where
  "isResult h v =
     ((strict_eq (JStr (typeof_js h v)) (JStr ''object'') \<and> \<not> strict_eq v JNull \<and>
       has_prop h v ''ok'' \<and>
       strict_eq (JStr (typeof_js h (get_prop h v ''ok''))) (JStr ''boolean''))
      \<and> ((truthy (get_prop h v ''ok'') \<and> has_prop h v ''value'') \<or>
         (\<not> truthy (get_prop h v ''ok'') \<and> has_prop h v ''error'')))"

text \<open>
  The text that a template literal \<^verbatim>\<open>`${v}`\<close> inserts for \<open>v\<close>. Every object is given the text
  of a plain object; the text is only ever part of the message of a thrown error.
\<close>

fun show_nat :: "nat \<Rightarrow> string" where
  "show_nat n =
     (if n < 10 then [''0123456789'' ! n] else show_nat (n div 10) @ [''0123456789'' ! (n mod 10)])"

definition show_int :: "int \<Rightarrow> string" where
  "show_int i = (if i < 0 then ''-'' @ show_nat (nat (- i)) else show_nat (nat i))"

fun display :: "jsval \<Rightarrow> string" where
  "display JUndefined = ''undefined''"
| "display JNull = ''null''"
| "display (JBool b) = (if b then ''true'' else ''false'')"
| "display (JNum n) = show_int n"
| "display JNaN = ''NaN''"
| "display (JStr t) = t"
| "display (Ref a) = ''[object Object]''"
| "display (Promise i st) = ''[object Promise]''"

text \<open>
  \<^verbatim>\<open>result.ok\<close> and the other property reads of the assertions: reading a property of \<open>null\<close>
  or \<open>undefined\<close> throws a \<open>TypeError\<close>.
\<close>

definition read_prop :: "jsval \<Rightarrow> string \<Rightarrow> state \<Rightarrow> completion \<times> state" where
  "read_prop v k s =
     (if v = JUndefined \<or> v = JNull then throw_new_Error ''Cannot read properties of null or undefined'' s
      else (Normal (get_prop (heap s) v k), s))"

text \<open>
  \<^verbatim>\<open>
  export function assertResultOk<T, E>(result: Result<T, E>): asserts result is ResultOk<T> {
      if (!result.ok) { throw new Error('Expected a successful result'); }
  }
  \<close>
  A function that ends without \<^verbatim>\<open>return\<close> completes with \<open>undefined\<close>.
\<close>

definition assertResultOk :: "jsval \<Rightarrow> state \<Rightarrow> completion \<times> state" where
  "assertResultOk result s =
     (case read_prop result ''ok'' s of
        (Throw x, s1) \<Rightarrow> (Throw x, s1)
      | (Normal b, s1) \<Rightarrow>
          if \<not> truthy b then throw_new_Error ''Expected a successful result'' s1
          else (Normal JUndefined, s1))"

text \<open>
  \<^verbatim>\<open>
  export function assertResultErr<T, E>(result: Result<T, E>): asserts result is ResultErr<E> {
      if (result.ok) { throw new Error('Expected a failed result'); }
  }
  \<close>
\<close>

definition assertResultErr :: "jsval \<Rightarrow> state \<Rightarrow> completion \<times> state" where
  "assertResultErr result s =
     (case read_prop result ''ok'' s of
        (Throw x, s1) \<Rightarrow> (Throw x, s1)
      | (Normal b, s1) \<Rightarrow>
          if truthy b then throw_new_Error ''Expected a failed result'' s1
          else (Normal JUndefined, s1))"

text \<open>
  \<^verbatim>\<open>
  export function assertResultOkEqual<T, E>(result: Result<T, E>, value: T): ... {
      assertResultOk(result);
      if (result.value !== value) { throw new Error(`Expected the value to be ${value}`); }
  }
  \<close>
\<close>

definition assertResultOkEqual :: "jsval \<Rightarrow> jsval \<Rightarrow> state \<Rightarrow> completion \<times> state" where
  "assertResultOkEqual result val s =
     (case assertResultOk result s of
        (Throw x, s1) \<Rightarrow> (Throw x, s1)
      | (Normal u, s1) \<Rightarrow>
          (case read_prop result ''value'' s1 of
             (Throw x, s2) \<Rightarrow> (Throw x, s2)
           | (Normal w, s2) \<Rightarrow>
               if \<not> strict_eq w val
               then throw_new_Error (''Expected the value to be '' @ display val) s2
               else (Normal JUndefined, s2)))"

text \<open>
  \<^verbatim>\<open>
  export function assertResultErrEqual<T, E>(result: Result<T, E>, error: E): ... {
      assertResultErr(result);
      if (result.error !== error) { throw new Error(`Expected the error to be ${error}`); }
  }
  \<close>
\<close>

definition assertResultErrEqual :: "jsval \<Rightarrow> jsval \<Rightarrow> state \<Rightarrow> completion \<times> state" where
  "assertResultErrEqual result error s =
     (case assertResultErr result s of
        (Throw x, s1) \<Rightarrow> (Throw x, s1)
      | (Normal u, s1) \<Rightarrow>
          (case read_prop result ''error'' s1 of
             (Throw x, s2) \<Rightarrow> (Throw x, s2)
           | (Normal w, s2) \<Rightarrow>
               if \<not> strict_eq w error
               then throw_new_Error (''Expected the error to be '' @ display error) s2
               else (Normal JUndefined, s2)))"

section \<open>resolve.ts\<close>

text \<open>
  The first statement of \<^verbatim>\<open>handleError\<close>:
  \<^verbatim>\<open>
  const errMessage = typeof error === 'string' ? error
                   : error instanceof Error ? error.message : 'An error occurred';
  \<close>
\<close>

definition errMessage :: "heap \<Rightarrow> jsval \<Rightarrow> jsval" where
  "errMessage h error =
     (if strict_eq (JStr (typeof_js h error)) (JStr ''string'') then error
      else if instanceof_Error h error then get_prop h error ''message''
      else JStr ''An error occurred'')"

text \<open>
  \<^verbatim>\<open>
  function handleError<T, E>(error: unknown, handler?: ...): Result<T, E> {
      const errMessage = ...;
      if (typeof handler === 'undefined' || typeof handler === null) {
          return err(errMessage as unknown as NonNullable<E>);
      }
      if (handler instanceof Function) {
          const e = handler(error);
          return isResult(e) ? e : err(e);
      }
      return err(handler);
  }
  \<close>
  A parameter that the caller leaves out is \<open>undefined\<close>. The second test of the first
  condition compares the string that \<^verbatim>\<open>typeof\<close> gives with the value \<open>null\<close>.
\<close>

definition handleError :: "fenv \<Rightarrow> jsval \<Rightarrow> jsval \<Rightarrow> state \<Rightarrow> completion \<times> state" where
  "handleError env error handler s =
     (let m = errMessage (heap s) error in
      if strict_eq (JStr (typeof_js (heap s) handler)) (JStr ''undefined'') \<or>
         strict_eq (JStr (typeof_js (heap s) handler)) JNull
      then err m s
      else if instanceof_Function (heap s) handler
      then (case call env handler [error] s of
              (Throw x, s1) \<Rightarrow> (Throw x, s1)
            | (Normal e, s1) \<Rightarrow> if isResult (heap s1) e then (Normal e, s1) else err e s1)
      else err handler s)"

text \<open>
  \<^verbatim>\<open>
  export function resolve<T, E>(fn: ResultFn<T, E>, handler?: ...): Result<T, E> {
      try { return fn(); } catch (error) { return handleError(error, handler); }
  }
  \<close>
\<close>

definition resolve :: "fenv \<Rightarrow> jsval \<Rightarrow> jsval \<Rightarrow> state \<Rightarrow> completion \<times> state" where
  "resolve env fn handler s =
     (case call env fn [] s of
        (Normal r, s1) \<Rightarrow> (Normal r, s1)
      | (Throw error, s1) \<Rightarrow> handleError env error handler s1)"

text \<open>
  The body of the \<open>then\<close> of a thenable: an object that is not a promise and whose property
  \<open>then\<close> can be called.
\<close>

definition then_of :: "heap \<Rightarrow> jsval \<Rightarrow> fid option" where
  "then_of h v = (case v of Ref a \<Rightarrow> fn_of h (get_prop h v ''then'') | _ \<Rightarrow> None)"

text \<open>
  What the \<open>then\<close> of a thenable makes of a promise that adopts it: the runtime calls
  \<^verbatim>\<open>then.call(thenable, resolve, reject)\<close>, and the promise settles as that call decides
  (it may fulfil it, reject it, or never settle it). The body is given by its number, the
  thenable and the heap, and answers with the settlement and the heap at that time.
\<close>

type_synonym thenv = "fid \<Rightarrow> jsval \<Rightarrow> heap \<Rightarrow> settlement \<times> heap"

text \<open>
  Resolving a promise with a value, as \<^verbatim>\<open>await v\<close> and the \<^verbatim>\<open>return v\<close> of an \<^verbatim>\<open>async\<close>
  function do: a promise is followed, a thenable is adopted through its \<open>then\<close>, and any
  other value fulfils. The calls of \<open>then\<close> are made by the runtime and are not logged.
\<close>

definition resolution :: "thenv \<Rightarrow> jsval \<Rightarrow> state \<Rightarrow> settlement \<times> state" where
  "resolution tenv v s =
     (case v of
        Promise i st \<Rightarrow> (st, s)
      | _ \<Rightarrow>
          (case then_of (heap s) v of
             None \<Rightarrow> (Fulfilled v, s)
           | Some t \<Rightarrow> (case tenv t v (heap s) of (st, h') \<Rightarrow> (st, s\<lparr>heap := h'\<rparr>))))"

text \<open>
  How the promise of an \<^verbatim>\<open>async\<close> function settles when its body completes: a thrown
  value rejects it, a returned value resolves it.
\<close>

definition settle :: "thenv \<Rightarrow> completion \<times> state \<Rightarrow> settlement \<times> state" where
  "settle tenv cs =
     (case cs of
        (Throw r, s) \<Rightarrow> (Rejected r, s)
      | (Normal v, s) \<Rightarrow> resolution tenv v s)"

text \<open>
  \<^verbatim>\<open>
  export async function resolveAsync<T, E>(fn: ResultAsyncFn<T, E>, handler?: ...): ResultAsync<T, E> {
      try { return await fn(); } catch (error) { return handleError(error, handler); }
  }
  \<close>
  The result is the settlement of the promise that the call returns. The \<^verbatim>\<open>await\<close> resolves
  the value of \<^verbatim>\<open>fn()\<close>: a fulfilment delivers its value, a rejection throws its reason
  inside the \<^verbatim>\<open>try\<close>, and on a value that never settles the function never resumes.
\<close>

definition resolveAsync ::
  "fenv \<Rightarrow> thenv \<Rightarrow> jsval \<Rightarrow> jsval \<Rightarrow> state \<Rightarrow> settlement \<times> state" where
  "resolveAsync env tenv fn handler s =
     (case call env fn [] s of
        (Throw error, s1) \<Rightarrow> settle tenv (handleError env error handler s1)
      | (Normal p, s1) \<Rightarrow>
          (case resolution tenv p s1 of
             (Pending, s2) \<Rightarrow> (Pending, s2)
           | (Fulfilled r, s2) \<Rightarrow> settle tenv (Normal r, s2)
           | (Rejected error, s2) \<Rightarrow> settle tenv (handleError env error handler s2)))"

section \<open>Vocabulary of the properties\<close>

text \<open>
  A value is a failure Result with error \<open>x\<close>, or a success Result with value \<open>x\<close>, when the
  library's own test accepts it and its fields read so.
\<close>

definition failure_with :: "heap \<Rightarrow> jsval \<Rightarrow> jsval \<Rightarrow> bool" where
  "failure_with h r x =
     (isResult h r \<and> get_prop h r ''ok'' = JBool False \<and> get_prop h r ''error'' = x)"

definition success_with :: "heap \<Rightarrow> jsval \<Rightarrow> jsval \<Rightarrow> bool" where
  "success_with h r x =
     (isResult h r \<and> get_prop h r ''ok'' = JBool True \<and> get_prop h r ''value'' = x)"

text \<open>The objects that the literals \<^verbatim>\<open>{ ok: true, value }\<close> and \<^verbatim>\<open>{ ok: false, error }\<close> build.\<close>

definition ok_obj :: "jsval \<Rightarrow> obj" where
  "ok_obj v = \<lparr>cls = PlainObj, props = [(''ok'', JBool True), (''value'', v)]\<rparr>"

definition err_obj :: "jsval \<Rightarrow> obj" where
  "err_obj e = \<lparr>cls = PlainObj, props = [(''ok'', JBool False), (''error'', e)]\<rparr>"

definition error_obj :: "string \<Rightarrow> obj" where
  "error_obj msg = \<lparr>cls = ErrorObj, props = [(''message'', JStr msg)]\<rparr>"

section \<open>A concrete program\<close>

text \<open>
  The operations and handlers of the repository's tests, as function bodies:
  \<^item> 0: \<^verbatim>\<open>() => { throw new Error('boom') }\<close>
  \<^item> 1: \<^verbatim>\<open>(e) => e\<close>
  \<^item> 2: \<^verbatim>\<open>(e) => ok(42)\<close>
  \<^item> 3: \<^verbatim>\<open>(e) => { throw 'handler failed' }\<close>
  \<^item> 4: \<^verbatim>\<open>() => err('declared')\<close>
  \<^item> 5: \<^verbatim>\<open>() => Promise.resolve(err('declared'))\<close>
  \<^item> 6: \<^verbatim>\<open>() => Promise.reject(new Error('boom'))\<close>
  \<^item> 7: \<^verbatim>\<open>() => { throw 'plain text' }\<close>
  \<^item> 8: \<^verbatim>\<open>() => { throw o }\<close>, for \<open>o\<close> the object \<^verbatim>\<open>{ message: 'not an Error' }\<close> at address 18
\<close>

definition demo_env :: fenv where
  "demo_env f args h =
     (if f = 0 then (Throw (Ref (length h)), h @ [error_obj ''boom''])
      else if f = 1 then (Normal (case args of [] \<Rightarrow> JUndefined | x # xs \<Rightarrow> x), h)
      else if f = 2 then (Normal (Ref (length h)), h @ [ok_obj (JNum 42)])
      else if f = 3 then (Throw (JStr ''handler failed''), h)
      else if f = 4 then (Normal (Ref (length h)), h @ [err_obj (JStr ''declared'')])
      else if f = 5 then
        (Normal (Promise 0 (Fulfilled (Ref (length h)))), h @ [err_obj (JStr ''declared'')])
      else if f = 6 then
        (Normal (Promise 1 (Rejected (Ref (length h)))), h @ [error_obj ''boom''])
      else if f = 7 then (Throw (JStr ''plain text''), h)
      else if f = 8 then (Throw (Ref 18), h)
      else (Normal JUndefined, h))"

text \<open>
  The heap holds the first eight functions at the addresses of their numbers, then the
  objects of the test of \<^verbatim>\<open>isResult\<close> and a default error, and last the ninth function:
  \<^item> 8: \<^verbatim>\<open>{ code: 'E' }\<close>
  \<^item> 9: \<^verbatim>\<open>{ ok: 'potato' }\<close>
  \<^item> 10: \<^verbatim>\<open>{ ok: true, value: 42 }\<close>
  \<^item> 11: \<^verbatim>\<open>{ ok: true, error: 'An error occurred' }\<close>
  \<^item> 12: \<^verbatim>\<open>{ ok: false, value: 42 }\<close>
  \<^item> 13: \<^verbatim>\<open>{ ok: false, error: 'An error occurred' }\<close>
  \<^item> 14: \<^verbatim>\<open>{ ok: true, value: 42, error: 'both' }\<close>
  \<^item> 15: \<^verbatim>\<open>{ code: 'E' }\<close>, a second object with the contents of the object at 8
  \<^item> 16: \<^verbatim>\<open>{ ok: true, value: o }\<close> and 17: \<^verbatim>\<open>{ ok: false, error: o }\<close>, for \<open>o\<close> the object at 8
  \<^item> 18: \<^verbatim>\<open>{ message: 'not an Error' }\<close>
  \<^item> 19: the function 8
\<close>

definition demo_heap :: heap where
  "demo_heap =
     [\<lparr>cls = FunctionObj 0, props = []\<rparr>,
      \<lparr>cls = FunctionObj 1, props = []\<rparr>,
      \<lparr>cls = FunctionObj 2, props = []\<rparr>,
      \<lparr>cls = FunctionObj 3, props = []\<rparr>,
      \<lparr>cls = FunctionObj 4, props = []\<rparr>,
      \<lparr>cls = FunctionObj 5, props = []\<rparr>,
      \<lparr>cls = FunctionObj 6, props = []\<rparr>,
      \<lparr>cls = FunctionObj 7, props = []\<rparr>,
      \<lparr>cls = PlainObj, props = [(''code'', JStr ''E'')]\<rparr>,
      \<lparr>cls = PlainObj, props = [(''ok'', JStr ''potato'')]\<rparr>,
      \<lparr>cls = PlainObj, props = [(''ok'', JBool True), (''value'', JNum 42)]\<rparr>,
      \<lparr>cls = PlainObj, props = [(''ok'', JBool True), (''error'', JStr ''An error occurred'')]\<rparr>,
      \<lparr>cls = PlainObj, props = [(''ok'', JBool False), (''value'', JNum 42)]\<rparr>,
      \<lparr>cls = PlainObj, props = [(''ok'', JBool False), (''error'', JStr ''An error occurred'')]\<rparr>,
      \<lparr>cls = PlainObj,
       props = [(''ok'', JBool True), (''value'', JNum 42), (''error'', JStr ''both'')]\<rparr>,
      \<lparr>cls = PlainObj, props = [(''code'', JStr ''E'')]\<rparr>,
      \<lparr>cls = PlainObj, props = [(''ok'', JBool True), (''value'', Ref 8)]\<rparr>,
      \<lparr>cls = PlainObj, props = [(''ok'', JBool False), (''error'', Ref 8)]\<rparr>,
      \<lparr>cls = PlainObj, props = [(''message'', JStr ''not an Error'')]\<rparr>,
      \<lparr>cls = FunctionObj 8, props = []\<rparr>]"

definition demo_state :: state where
  "demo_state = \<lparr>heap = demo_heap, trace = []\<rparr>"

text \<open>
  A second heap extends the first by handlers of the less common shapes:
  \<^item> 20: the function \<^verbatim>\<open>(e) => e\<close> (body 1) after \<^verbatim>\<open>Object.setPrototypeOf(f, null)\<close>: it can be
    called and is not an instance of \<open>Function\<close>
  \<^item> 21: \<^verbatim>\<open>Object.create(Function.prototype)\<close>: an instance of \<open>Function\<close> that cannot be called
  \<^item> 22: the function with body 9, \<^verbatim>\<open>function (res, rej) { rej('from then') }\<close>
  \<^item> 23: \<^verbatim>\<open>{ ok: false, error: 'x', then: t }\<close>, a Result that is thenable, for \<open>t\<close> the
    function at 22
  \<^item> 24: the function with body 10, \<^verbatim>\<open>(e) => r\<close>, for \<open>r\<close> the object at 23
\<close>

definition demo_heap2 :: heap where
  "demo_heap2 =
     demo_heap @
     [\<lparr>cls = CallableObj 1, props = []\<rparr>,
      \<lparr>cls = FunctionInstObj, props = []\<rparr>,
      \<lparr>cls = FunctionObj 9, props = []\<rparr>,
      \<lparr>cls = PlainObj,
       props = [(''ok'', JBool False), (''error'', JStr ''x''), (''then'', Ref 22)]\<rparr>,
      \<lparr>cls = FunctionObj 10, props = []\<rparr>]"

definition demo_state2 :: state where
  "demo_state2 = \<lparr>heap = demo_heap2, trace = []\<rparr>"

definition demo_env2 :: fenv where
  "demo_env2 f args h = (if f = 10 then (Normal (Ref 23), h) else demo_env f args h)"

text \<open>A promise that adopts a thenable through the body 9 is rejected by it.\<close>

definition demo_tenv :: thenv where
  "demo_tenv t this h = (if t = 9 then (Rejected (JStr ''from then''), h) else (Pending, h))"

section \<open>Basic facts\<close>

lemma ok_eq:
  "ok v s = (Normal (Ref (length (heap s))), s\<lparr>heap := heap s @ [ok_obj v]\<rparr>)"
  by (simp add: ok_def alloc_def ok_obj_def)

lemma err_eq:
  "err e s = (Normal (Ref (length (heap s))), s\<lparr>heap := heap s @ [err_obj e]\<rparr>)"
  by (simp add: err_def alloc_def err_obj_def)

lemma throw_new_Error_eq:
  "throw_new_Error msg s =
     (Throw (Ref (length (heap s))), s\<lparr>heap := heap s @ [error_obj msg]\<rparr>)"
  by (simp add: throw_new_Error_def alloc_def error_obj_def)

lemma obj_at_append_new: "obj_at (h @ [ob]) (length h) = Some ob"
  by (simp add: obj_at_def)

lemma obj_at_append_old: "a < length h \<Longrightarrow> obj_at (h @ [ob]) a = obj_at h a"
  by (simp add: obj_at_def nth_append)

lemma typeof_boolean_iff: "typeof_js h v = ''boolean'' \<longleftrightarrow> (\<exists>b. v = JBool b)"
  by (cases v) (auto simp: typeof_js_def split: option.splits objclass.splits)

lemma typeof_undefined_iff: "typeof_js h v = ''undefined'' \<longleftrightarrow> v = JUndefined"
  by (cases v) (auto simp: typeof_js_def split: option.splits objclass.splits)

lemma typeof_string_iff: "typeof_js h v = ''string'' \<longleftrightarrow> (\<exists>t. v = JStr t)"
  by (cases v) (auto simp: typeof_js_def split: option.splits objclass.splits)

lemma fn_of_SomeD: "fn_of h v = Some g \<Longrightarrow> v \<noteq> JUndefined \<and> v \<noteq> JNull"
  by (cases v) (simp_all add: fn_of_def)

lemma isResult_iff:
  "isResult h v \<longleftrightarrow>
     (\<exists>a ob b. v = Ref a \<and> obj_at h a = Some ob \<and> fn_of h v = None \<and>
        map_of (props ob) ''ok'' = Some (JBool b) \<and>
        (if b then ''value'' \<in> fst ` set (props ob) else ''error'' \<in> fst ` set (props ob)))"
proof (cases v)
  case (Ref a)
  show ?thesis
  proof (cases "obj_at h a")
    case None
    with Ref show ?thesis
      by (simp add: isResult_def has_prop_def)
  next
    case (Some ob)
    show ?thesis
    proof (cases "map_of (props ob) ''ok''")
      case None
      then have "''ok'' \<notin> fst ` set (props ob)"
        by (simp add: map_of_eq_None_iff)
      with Ref Some None show ?thesis
        by (simp add: isResult_def has_prop_def)
    next
      case (Some t)
      then have "''ok'' \<in> fst ` set (props ob)"
        by (metis map_of_eq_None_iff option.distinct(1))
      with Ref \<open>obj_at h a = Some ob\<close> Some show ?thesis
        by (cases t; cases "cls ob")
           (auto simp: isResult_def typeof_boolean_iff has_prop_def get_prop_def fn_of_def
                       typeof_js_def [of h "Ref a"])
    qed
  qed
qed (simp_all add: isResult_def typeof_js_def has_prop_def)

lemma isResult_new_ok: "isResult (h @ [ok_obj v]) (Ref (length h))"
  by (auto simp: isResult_iff obj_at_append_new fn_of_def ok_obj_def)

lemma isResult_new_err: "isResult (h @ [err_obj e]) (Ref (length h))"
  by (auto simp: isResult_iff obj_at_append_new fn_of_def err_obj_def)

lemma failure_with_new_err: "failure_with (h @ [err_obj e]) (Ref (length h)) e"
  by (simp add: failure_with_def isResult_new_err)
     (simp add: get_prop_def obj_at_append_new err_obj_def)

lemma call_fn:
  "fn_of (heap s) f = Some g \<Longrightarrow> env g args (heap s) = (c, h1) \<Longrightarrow>
   call env f args s = (c, \<lparr>heap = h1, trace = trace s @ [(g, args)]\<rparr>)"
  by (simp add: call_def)

lemma handleError_absent: "handleError env e JUndefined s = err (errMessage (heap s) e) s"
  by (simp add: handleError_def Let_def typeof_js_def)

lemma instanceof_FunctionD: "instanceof_Function h v \<Longrightarrow> v \<noteq> JUndefined \<and> v \<noteq> JNull"
  by (cases v) (simp_all add: instanceof_Function_def)

lemma handleError_value:
  "handler \<noteq> JUndefined \<Longrightarrow> \<not> instanceof_Function (heap s) handler \<Longrightarrow>
   handleError env e handler s = err handler s"
  by (simp add: handleError_def Let_def typeof_undefined_iff)

lemma handleError_inst:
  "instanceof_Function (heap s) handler \<Longrightarrow>
   handleError env e handler s =
     (case call env handler [e] s of
        (Throw x, s1) \<Rightarrow> (Throw x, s1)
      | (Normal r, s1) \<Rightarrow> if isResult (heap s1) r then (Normal r, s1) else err r s1)"
  using instanceof_FunctionD [of "heap s" handler]
  by (simp add: handleError_def Let_def typeof_undefined_iff)

lemma handleError_fn:
  "instanceof_Function (heap s) handler \<Longrightarrow>
   fn_of (heap s) handler = Some g \<Longrightarrow> env g [e] (heap s) = (c, h1) \<Longrightarrow>
   handleError env e handler s =
     (case c of
        Throw x \<Rightarrow> (Throw x, \<lparr>heap = h1, trace = trace s @ [(g, [e])]\<rparr>)
      | Normal r \<Rightarrow>
          if isResult h1 r then (Normal r, \<lparr>heap = h1, trace = trace s @ [(g, [e])]\<rparr>)
          else err r \<lparr>heap = h1, trace = trace s @ [(g, [e])]\<rparr>)"
  by (cases c) (simp_all add: handleError_inst call_fn)

lemma handleError_not_callable:
  "instanceof_Function (heap s) handler \<Longrightarrow> fn_of (heap s) handler = None \<Longrightarrow>
   handleError env e handler s = throw_new_Error ''fn is not a function'' s"
  by (simp add: handleError_inst call_def throw_new_Error_eq)

lemma then_of_new_err: "then_of (h @ [err_obj e]) (Ref (length h)) = None"
  by (simp add: then_of_def get_prop_def obj_at_append_new err_obj_def fn_of_def)

lemma resolution_promise: "resolution tenv (Promise i st) s = (st, s)"
  by (simp add: resolution_def)

lemma resolution_not_thenable:
  "\<forall>i st. v \<noteq> Promise i st \<Longrightarrow> then_of (heap s) v = None \<Longrightarrow>
   resolution tenv v s = (Fulfilled v, s)"
  by (cases v) (simp_all add: resolution_def)

lemma resolution_thenable:
  "then_of (heap s) (Ref a) = Some t \<Longrightarrow>
   resolution tenv (Ref a) s = (case tenv t (Ref a) (heap s) of (st, h') \<Rightarrow> (st, s\<lparr>heap := h'\<rparr>))"
  by (simp add: resolution_def)

lemma settle_throw: "settle tenv (Throw x, s) = (Rejected x, s)"
  by (simp add: settle_def)

lemma settle_err: "settle tenv (err e s) = (Fulfilled (Ref (length (heap s))), snd (err e s))"
  by (simp add: settle_def err_eq resolution_def then_of_new_err)

lemma errMessage_cases:
  "errMessage h e =
     (case e of
        JStr t \<Rightarrow> e
      | _ \<Rightarrow> if instanceof_Error h e then get_prop h e ''message'' else JStr ''An error occurred'')"
  by (cases e) (simp_all add: errMessage_def typeof_string_iff instanceof_Error_def)

subsection \<open>The concrete program, evaluated\<close>

lemma demo_fn_of:
  "fn_of demo_heap (Ref 0) = Some 0" "fn_of demo_heap (Ref 1) = Some 1"
  "fn_of demo_heap (Ref 2) = Some 2" "fn_of demo_heap (Ref 3) = Some 3"
  "fn_of demo_heap (Ref 4) = Some 4" "fn_of demo_heap (Ref 5) = Some 5"
  "fn_of demo_heap (Ref 6) = Some 6" "fn_of demo_heap (Ref 7) = Some 7"
  "fn_of demo_heap (Ref 8) = None"
  by (simp_all add: fn_of_def obj_at_def demo_heap_def)

lemma demo_length: "length demo_heap = 20"
  by (simp add: demo_heap_def)

lemma demo_call_0:
  "call demo_env (Ref 0) [] demo_state =
     (Throw (Ref 20), \<lparr>heap = demo_heap @ [error_obj ''boom''], trace = [(0, [])]\<rparr>)"
  by (simp add: call_def demo_state_def demo_fn_of demo_env_def demo_length)

section \<open>The constructors\<close>

text \<open>
  Claim C10. For every value \<open>v\<close>, \<open>null\<close> and \<open>undefined\<close> included, \<open>ok(v)\<close> returns a new
  object \<^verbatim>\<open>{ok: true, value: v}\<close> and \<open>err(v)\<close> a new object \<^verbatim>\<open>{ok: false, error: v}\<close>, and
  neither raises: the constructors are total and test nothing at run time (the
  \<open>NonNullable\<close> of their signatures exists for the type checker only). Both results pass
  \<open>isResult\<close>.
\<close>

theorem constructors_total:
  "ok v s = (Normal (Ref (length (heap s))),
             s\<lparr>heap := heap s @ [\<lparr>cls = PlainObj, props = [(''ok'', JBool True), (''value'', v)]\<rparr>]\<rparr>)
   \<and> err v s = (Normal (Ref (length (heap s))),
             s\<lparr>heap := heap s @ [\<lparr>cls = PlainObj, props = [(''ok'', JBool False), (''error'', v)]\<rparr>]\<rparr>)
   \<and> success_with (heap (snd (ok v s))) (Ref (length (heap s))) v
   \<and> failure_with (heap (snd (err v s))) (Ref (length (heap s))) v
   \<and> fst (ok JNull s) = Normal (Ref (length (heap s)))
   \<and> fst (ok JUndefined s) = Normal (Ref (length (heap s)))
   \<and> fst (err JNull s) = Normal (Ref (length (heap s)))
   \<and> fst (err JUndefined s) = Normal (Ref (length (heap s)))"
proof -
  have "success_with (heap s @ [ok_obj v]) (Ref (length (heap s))) v"
    by (simp add: success_with_def isResult_new_ok)
       (simp add: get_prop_def obj_at_append_new ok_obj_def)
  then show ?thesis
    using failure_with_new_err [of "heap s" v]
    by (simp add: ok_eq err_eq) (simp add: ok_obj_def err_obj_def)
qed

section \<open>The policy of \<open>handleError\<close>\<close>

text \<open>
  Claim C9. When the handler is the value \<open>null\<close>, \<open>handleError\<close> does not take the branch
  of the absent handler: the second test of its guard compares the string that
  \<^verbatim>\<open>typeof\<close> gives with \<open>null\<close>, which are never equal. The function goes on to the last
  branch and returns a new failure Result whose error is \<open>null\<close>, whatever was caught; so
  do \<open>resolve\<close> and \<open>resolveAsync\<close> when the operation throws or its promise rejects.
\<close>

theorem null_handler_not_absent:
  "handleError env e JNull s =
     (Normal (Ref (length (heap s))),
      s\<lparr>heap := heap s @ [\<lparr>cls = PlainObj, props = [(''ok'', JBool False), (''error'', JNull)]\<rparr>]\<rparr>)
   \<and> \<not> strict_eq (JStr (typeof_js (heap s) JNull)) JNull
   \<and> failure_with (heap (snd (handleError env e JNull s))) (Ref (length (heap s))) JNull
   \<and> (\<forall>x s1. call env fn [] s = (Throw x, s1) \<longrightarrow>
         resolve env fn JNull s = err JNull s1 \<and>
         resolveAsync env tenv fn JNull s =
           (Fulfilled (Ref (length (heap s1))), snd (err JNull s1)))
   \<and> (\<forall>i x s1. call env fn [] s = (Normal (Promise i (Rejected x)), s1) \<longrightarrow>
         resolveAsync env tenv fn JNull s =
           (Fulfilled (Ref (length (heap s1))), snd (err JNull s1)))"
proof -
  have a: "handleError env x JNull t = err JNull t" for x t
    by (simp add: handleError_value instanceof_Function_def)
  have b: "failure_with (heap (snd (err JNull s))) (Ref (length (heap s))) JNull"
    using failure_with_new_err [of "heap s" JNull] by (simp add: err_eq)
  have c: "handleError env e JNull s =
     (Normal (Ref (length (heap s))),
      s\<lparr>heap := heap s @ [\<lparr>cls = PlainObj, props = [(''ok'', JBool False), (''error'', JNull)]\<rparr>]\<rparr>)"
    by (simp add: a err_eq err_obj_def)
  have d: "resolve env fn JNull s = err JNull s1"
    if "call env fn [] s = (Throw x, s1)" for x s1
    using that by (simp add: resolve_def a)
  have f: "resolveAsync env tenv fn JNull s =
             (Fulfilled (Ref (length (heap s1))), snd (err JNull s1))"
    if "call env fn [] s = (Throw x, s1)" for x s1
    using that by (simp add: resolveAsync_def a settle_err)
  have g: "resolveAsync env tenv fn JNull s =
             (Fulfilled (Ref (length (heap s1))), snd (err JNull s1))"
    if "call env fn [] s = (Normal (Promise i (Rejected x)), s1)" for i x s1
    using that by (simp add: resolveAsync_def resolution_promise a settle_err)
  have h: "\<not> strict_eq (JStr (typeof_js (heap s) JNull)) JNull"
    by simp
  from b have b': "failure_with (heap (snd (handleError env e JNull s))) (Ref (length (heap s))) JNull"
    by (simp only: a)
  show ?thesis
    using c h b' d f g by blast
qed

theorem null_handler_not_absent_witness:
  "call demo_env (Ref 0) [] demo_state =
     (Throw (Ref 20), \<lparr>heap = demo_heap @ [error_obj ''boom''], trace = [(0, [])]\<rparr>) \<and>
   resolve demo_env (Ref 0) JNull demo_state =
     (Normal (Ref 21),
      \<lparr>heap = demo_heap @ [error_obj ''boom'', err_obj JNull], trace = [(0, [])]\<rparr>)"
  using null_handler_not_absent [where env = demo_env and s = demo_state and fn = "Ref 0"]
    demo_call_0
  by (simp add: err_eq demo_length)

text \<open>
  Claim C3, as amended. The claim speaks of every handler that is present and cannot be
  called. The code does not ask whether the handler can be called: it asks whether it is an
  instance of \<open>Function\<close>, and then calls it. For a handler that is present (it is not
  \<open>undefined\<close>) and is not an instance of \<open>Function\<close>, \<open>handleError\<close> returns a new failure
  Result whose error is that very handler value, calls nothing, and its outcome is the same
  for every caught value.
\<close>

theorem default_error_substituted:
  assumes "handler \<noteq> JUndefined" and "\<not> instanceof_Function (heap s) handler"
  shows "handleError env e handler s =
           (Normal (Ref (length (heap s))),
            s\<lparr>heap := heap s @
               [\<lparr>cls = PlainObj, props = [(''ok'', JBool False), (''error'', handler)]\<rparr>]\<rparr>)
         \<and> failure_with (heap (snd (handleError env e handler s))) (Ref (length (heap s))) handler
         \<and> handleError env e handler s = handleError env e' handler s
         \<and> trace (snd (handleError env e handler s)) = trace s"
proof -
  have a: "handleError env x handler s = err handler s" for x
    using assms by (rule handleError_value)
  have b: "failure_with (heap (snd (err handler s))) (Ref (length (heap s))) handler"
    using failure_with_new_err [of "heap s" handler] by (simp add: err_eq)
  show ?thesis
    using b by (simp add: a) (simp add: err_eq err_obj_def)
qed

lemma demo_obj_at:
  "obj_at demo_heap 8 = Some \<lparr>cls = PlainObj, props = [(''code'', JStr ''E'')]\<rparr>"
  by (simp add: obj_at_def demo_heap_def)

theorem default_error_substituted_witness:
  "Ref 8 \<noteq> JUndefined \<and> \<not> instanceof_Function (heap demo_state) (Ref 8) \<and>
   handleError demo_env (JStr ''boom'') (Ref 8) demo_state =
     (Normal (Ref 20),
      \<lparr>heap = demo_heap @ [\<lparr>cls = PlainObj, props = [(''ok'', JBool False), (''error'', Ref 8)]\<rparr>],
       trace = []\<rparr>)
   \<and> handleError demo_env (JStr ''boom'') (Ref 8) demo_state =
       handleError demo_env (JNum 3) (Ref 8) demo_state"
proof -
  have h: "\<not> instanceof_Function (heap demo_state) (Ref 8)"
    by (simp add: instanceof_Function_def demo_state_def demo_obj_at)
  have l: "length (heap demo_state) = 20"
    by (simp add: demo_state_def demo_heap_def)
  show ?thesis
    using h l default_error_substituted [of "Ref 8" demo_state demo_env "JStr ''boom''" "JNum 3"]
    by (auto simp: demo_state_def)
qed

text \<open>
  The claim as it was stated fails at a handler that cannot be called and is an instance
  of \<open>Function\<close>, the object made by \<^verbatim>\<open>Object.create(Function.prototype)\<close>: the code goes on
  to call it, and the call throws a \<open>TypeError\<close>.
\<close>

lemma demo_length2: "length demo_heap2 = 25"
  by (simp add: demo_heap2_def demo_length)

lemma demo_objs2:
  "obj_at demo_heap2 20 = Some \<lparr>cls = CallableObj 1, props = []\<rparr>"
  "obj_at demo_heap2 21 = Some \<lparr>cls = FunctionInstObj, props = []\<rparr>"
  "obj_at demo_heap2 22 = Some \<lparr>cls = FunctionObj 9, props = []\<rparr>"
  "obj_at demo_heap2 23 =
     Some \<lparr>cls = PlainObj,
           props = [(''ok'', JBool False), (''error'', JStr ''x''), (''then'', Ref 22)]\<rparr>"
  "obj_at demo_heap2 24 = Some \<lparr>cls = FunctionObj 10, props = []\<rparr>"
  by (simp_all add: obj_at_def demo_heap2_def demo_length nth_append)

theorem default_error_substituted_counterexample:
  "Ref 21 \<noteq> JUndefined \<and> fn_of (heap demo_state2) (Ref 21) = None \<and>
   handleError demo_env (JStr ''boom'') (Ref 21) demo_state2 =
     (Throw (Ref 25),
      \<lparr>heap = demo_heap2 @ [error_obj ''fn is not a function''], trace = []\<rparr>)"
proof -
  have i: "instanceof_Function (heap demo_state2) (Ref 21)"
    and n: "fn_of (heap demo_state2) (Ref 21) = None"
    by (simp_all add: instanceof_Function_def fn_of_def demo_state2_def demo_objs2)
  show ?thesis
    using n by (simp add: handleError_not_callable [OF i n] throw_new_Error_eq)
               (simp add: demo_state2_def demo_length2)
qed

section \<open>The predicate and the assertions\<close>

lemma has_prop_obj:
  "obj_at h a = Some ob \<Longrightarrow> has_prop h (Ref a) k = (k \<in> fst ` set (props ob))"
  by (simp add: has_prop_def)

lemma get_prop_obj:
  "obj_at h a = Some ob \<Longrightarrow>
   get_prop h (Ref a) k = (case map_of (props ob) k of None \<Rightarrow> JUndefined | Some w \<Rightarrow> w)"
  by (simp add: get_prop_def)

lemma isResult_not_nullish: "isResult h r \<Longrightarrow> r \<noteq> JUndefined \<and> r \<noteq> JNull"
  by (auto simp: isResult_iff)

lemma isResult_tag: "isResult h r \<Longrightarrow> \<exists>b. get_prop h r ''ok'' = JBool b"
  by (auto simp: isResult_iff get_prop_obj)

text \<open>
  Claim C7. \<open>isResult(v)\<close> holds exactly when \<open>v\<close> is an object (not \<open>null\<close>, and of type
  \<open>object\<close>) that has a field \<open>ok\<close> holding a boolean, and has a field \<open>value\<close> when \<open>ok\<close> is
  true, a field \<open>error\<close> when \<open>ok\<close> is false. In particular it holds of what \<open>ok\<close> and
  \<open>err\<close> return and of an object with tag true that has both payload fields; it fails for
  \<open>null\<close>, for \<open>undefined\<close>, for every value that is not an object, for an object whose tag
  is not a boolean, for tag true without a \<open>value\<close> field (an \<open>error\<close> field does not help)
  and for tag false without an \<open>error\<close> field (a \<open>value\<close> field does not help).
\<close>

theorem isResult_characterised:
  "(isResult h v \<longleftrightarrow>
      (\<exists>a ob b. v = Ref a \<and> obj_at h a = Some ob \<and> typeof_js h v = ''object'' \<and>
         get_prop h v ''ok'' = JBool b \<and> has_prop h v ''ok'' \<and>
         (if b then has_prop h v ''value'' else has_prop h v ''error'')))
   \<and> (\<exists>r. fst (ok x s) = Normal r \<and> isResult (heap (snd (ok x s))) r)
   \<and> (\<exists>r. fst (err x s) = Normal r \<and> isResult (heap (snd (err x s))) r)
   \<and> (\<forall>a ob. obj_at h a = Some ob \<and> cls ob = PlainObj \<and>
         map_of (props ob) ''ok'' = Some (JBool True) \<and>
         ''value'' \<in> fst ` set (props ob) \<and> ''error'' \<in> fst ` set (props ob) \<longrightarrow>
         isResult h (Ref a))
   \<and> \<not> isResult h JNull
   \<and> \<not> isResult h JUndefined
   \<and> \<not> isResult h (JBool c) \<and> \<not> isResult h (JNum n) \<and> \<not> isResult h JNaN \<and> \<not> isResult h (JStr t)
   \<and> (\<forall>a ob w. obj_at h a = Some ob \<and> map_of (props ob) ''ok'' = Some w \<and>
         (\<forall>b. w \<noteq> JBool b) \<longrightarrow> \<not> isResult h (Ref a))
   \<and> (\<forall>a ob. obj_at h a = Some ob \<and> map_of (props ob) ''ok'' = Some (JBool True) \<and>
         ''value'' \<notin> fst ` set (props ob) \<longrightarrow> \<not> isResult h (Ref a))
   \<and> (\<forall>a ob. obj_at h a = Some ob \<and> map_of (props ob) ''ok'' = Some (JBool False) \<and>
         ''error'' \<notin> fst ` set (props ob) \<longrightarrow> \<not> isResult h (Ref a))"
proof -
  have char: "isResult h v \<longleftrightarrow>
      (\<exists>a ob b. v = Ref a \<and> obj_at h a = Some ob \<and> typeof_js h v = ''object'' \<and>
         get_prop h v ''ok'' = JBool b \<and> has_prop h v ''ok'' \<and>
         (if b then has_prop h v ''value'' else has_prop h v ''error''))"
  proof
    assume "isResult h v"
    then obtain a ob b where v: "v = Ref a" and ob: "obj_at h a = Some ob"
      and f: "fn_of h v = None" and t: "map_of (props ob) ''ok'' = Some (JBool b)"
      and p: "if b then ''value'' \<in> fst ` set (props ob) else ''error'' \<in> fst ` set (props ob)"
      unfolding isResult_iff by blast
    from t have "''ok'' \<in> fst ` set (props ob)"
      by (metis map_of_eq_None_iff option.distinct(1))
    moreover from f v ob have "typeof_js h v = ''object''"
      by (cases "cls ob") (simp_all add: typeof_js_def fn_of_def)
    ultimately show "\<exists>a ob b. v = Ref a \<and> obj_at h a = Some ob \<and> typeof_js h v = ''object'' \<and>
         get_prop h v ''ok'' = JBool b \<and> has_prop h v ''ok'' \<and>
         (if b then has_prop h v ''value'' else has_prop h v ''error'')"
      using v ob t p by (simp add: has_prop_obj get_prop_obj)
  next
    assume "\<exists>a ob b. v = Ref a \<and> obj_at h a = Some ob \<and> typeof_js h v = ''object'' \<and>
         get_prop h v ''ok'' = JBool b \<and> has_prop h v ''ok'' \<and>
         (if b then has_prop h v ''value'' else has_prop h v ''error'')"
    then show "isResult h v"
      by (auto simp: isResult_def typeof_js_def [of h "JBool _"] split: if_splits)
  qed
  have prod_ok: "\<exists>r. fst (ok x s) = Normal r \<and> isResult (heap (snd (ok x s))) r"
    by (simp add: ok_eq isResult_new_ok)
  have prod_err: "\<exists>r. fst (err x s) = Normal r \<and> isResult (heap (snd (err x s))) r"
    by (simp add: err_eq isResult_new_err)
  have both: "isResult h (Ref a)"
    if "obj_at h a = Some ob" "cls ob = PlainObj" "map_of (props ob) ''ok'' = Some (JBool True)"
       "''value'' \<in> fst ` set (props ob)" for a ob
    using that by (auto simp: isResult_iff fn_of_def)
  have prims: "\<not> isResult h JNull" "\<not> isResult h JUndefined" "\<not> isResult h (JBool c)"
    "\<not> isResult h (JNum n)" "\<not> isResult h JNaN" "\<not> isResult h (JStr t)"
    by (simp_all add: isResult_iff)
  have tag: "\<not> isResult h (Ref a)"
    if "obj_at h a = Some ob" "map_of (props ob) ''ok'' = Some w" "\<forall>b. w \<noteq> JBool b" for a ob w
    using that by (auto simp: isResult_iff)
  have no_value: "\<not> isResult h (Ref a)"
    if "obj_at h a = Some ob" "map_of (props ob) ''ok'' = Some (JBool True)"
       "''value'' \<notin> fst ` set (props ob)" for a ob
    using that by (auto simp: isResult_iff)
  have no_error: "\<not> isResult h (Ref a)"
    if "obj_at h a = Some ob" "map_of (props ob) ''ok'' = Some (JBool False)"
       "''error'' \<notin> fst ` set (props ob)" for a ob
    using that by (auto simp: isResult_iff)
  show ?thesis
    using char prod_ok prod_err both prims tag no_value no_error by blast
qed

lemma demo_isResult_objs:
  "obj_at demo_heap 9 = Some \<lparr>cls = PlainObj, props = [(''ok'', JStr ''potato'')]\<rparr>"
  "obj_at demo_heap 11 =
     Some \<lparr>cls = PlainObj, props = [(''ok'', JBool True), (''error'', JStr ''An error occurred'')]\<rparr>"
  "obj_at demo_heap 12 = Some \<lparr>cls = PlainObj, props = [(''ok'', JBool False), (''value'', JNum 42)]\<rparr>"
  "obj_at demo_heap 14 =
     Some \<lparr>cls = PlainObj,
           props = [(''ok'', JBool True), (''value'', JNum 42), (''error'', JStr ''both'')]\<rparr>"
  by (simp_all add: obj_at_def demo_heap_def)

theorem isResult_characterised_witness:
  "isResult demo_heap (Ref 14) \<and> \<not> isResult demo_heap (Ref 9) \<and>
   \<not> isResult demo_heap (Ref 11) \<and> \<not> isResult demo_heap (Ref 12)"
proof -
  note t = isResult_characterised [of demo_heap JNull JNull demo_state True 0 "''''"]
  have a: "isResult demo_heap (Ref 14)"
    using t demo_isResult_objs(4) by (elim conjE allE [where x = 14]) simp
  have b: "\<not> isResult demo_heap (Ref 9)"
    using t demo_isResult_objs(1) by (elim conjE allE [where x = 9]) simp
  have c: "\<not> isResult demo_heap (Ref 11)"
    using t demo_isResult_objs(2) by (elim conjE allE [where x = 11]) simp
  have d: "\<not> isResult demo_heap (Ref 12)"
    using t demo_isResult_objs(3) by (elim conjE allE [where x = 12]) simp
  from a b c d show ?thesis by simp
qed

lemma assertResultOk_eq:
  "r \<noteq> JUndefined \<Longrightarrow> r \<noteq> JNull \<Longrightarrow>
   assertResultOk r s =
     (if \<not> truthy (get_prop (heap s) r ''ok'') then throw_new_Error ''Expected a successful result'' s
      else (Normal JUndefined, s))"
  by (simp add: assertResultOk_def read_prop_def)

lemma assertResultErr_eq:
  "r \<noteq> JUndefined \<Longrightarrow> r \<noteq> JNull \<Longrightarrow>
   assertResultErr r s =
     (if truthy (get_prop (heap s) r ''ok'') then throw_new_Error ''Expected a failed result'' s
      else (Normal JUndefined, s))"
  by (simp add: assertResultErr_def read_prop_def)

lemma assertResultOkEqual_eq:
  "r \<noteq> JUndefined \<Longrightarrow> r \<noteq> JNull \<Longrightarrow>
   assertResultOkEqual r x s =
     (if \<not> truthy (get_prop (heap s) r ''ok'') then throw_new_Error ''Expected a successful result'' s
      else if \<not> strict_eq (get_prop (heap s) r ''value'') x
      then throw_new_Error (''Expected the value to be '' @ display x) s
      else (Normal JUndefined, s))"
  by (simp add: assertResultOkEqual_def assertResultOk_eq read_prop_def throw_new_Error_eq)

lemma assertResultErrEqual_eq:
  "r \<noteq> JUndefined \<Longrightarrow> r \<noteq> JNull \<Longrightarrow>
   assertResultErrEqual r x s =
     (if truthy (get_prop (heap s) r ''ok'') then throw_new_Error ''Expected a failed result'' s
      else if \<not> strict_eq (get_prop (heap s) r ''error'') x
      then throw_new_Error (''Expected the error to be '' @ display x) s
      else (Normal JUndefined, s))"
  by (simp add: assertResultErrEqual_def assertResultErr_eq read_prop_def throw_new_Error_eq)

text \<open>
  Claim C8. For a Result \<open>r\<close> and an expected payload \<open>x\<close>, \<open>assertResultOkEqual(r, x)\<close> first
  throws (the error of \<open>assertResultOk\<close>) when \<open>r\<close> is a failure; on a success it throws
  exactly when the payload of \<open>r\<close> is not strictly equal to \<open>x\<close>, and otherwise returns
  leaving the state as it was. Strict equality of objects is identity: a payload and an
  expected value that are two different objects do not pass, even when the two objects
  hold the same. \<open>assertResultErrEqual\<close> is the mirror image on the failure payload.
\<close>

theorem assert_equal_is_strict:
  assumes "isResult (heap s) r"
  shows
   "(get_prop (heap s) r ''ok'' = JBool False \<longrightarrow>
       assertResultOkEqual r x s =
         (Throw (Ref (length (heap s))),
          s\<lparr>heap := heap s @ [error_obj ''Expected a successful result'']\<rparr>))
    \<and> (get_prop (heap s) r ''ok'' = JBool True \<longrightarrow>
         (if strict_eq (get_prop (heap s) r ''value'') x
          then assertResultOkEqual r x s = (Normal JUndefined, s)
          else assertResultOkEqual r x s =
                 (Throw (Ref (length (heap s))),
                  s\<lparr>heap := heap s @ [error_obj (''Expected the value to be '' @ display x)]\<rparr>)))
    \<and> (\<forall>a b. get_prop (heap s) r ''ok'' = JBool True \<and> get_prop (heap s) r ''value'' = Ref a \<and>
          x = Ref b \<and> a \<noteq> b \<and> obj_at (heap s) a = obj_at (heap s) b \<longrightarrow>
          fst (assertResultOkEqual r x s) = Throw (Ref (length (heap s))))
    \<and> (get_prop (heap s) r ''ok'' = JBool True \<longrightarrow>
       assertResultErrEqual r x s =
         (Throw (Ref (length (heap s))),
          s\<lparr>heap := heap s @ [error_obj ''Expected a failed result'']\<rparr>))
    \<and> (get_prop (heap s) r ''ok'' = JBool False \<longrightarrow>
         (if strict_eq (get_prop (heap s) r ''error'') x
          then assertResultErrEqual r x s = (Normal JUndefined, s)
          else assertResultErrEqual r x s =
                 (Throw (Ref (length (heap s))),
                  s\<lparr>heap := heap s @ [error_obj (''Expected the error to be '' @ display x)]\<rparr>)))
    \<and> (\<forall>a b. get_prop (heap s) r ''ok'' = JBool False \<and> get_prop (heap s) r ''error'' = Ref a \<and>
          x = Ref b \<and> a \<noteq> b \<and> obj_at (heap s) a = obj_at (heap s) b \<longrightarrow>
          fst (assertResultErrEqual r x s) = Throw (Ref (length (heap s))))
    \<and> (get_prop (heap s) r ''ok'' = JBool False \<or> get_prop (heap s) r ''ok'' = JBool True)"
proof -
  from assms have n: "r \<noteq> JUndefined" "r \<noteq> JNull"
    using isResult_not_nullish by blast+
  from assms obtain b where b: "get_prop (heap s) r ''ok'' = JBool b"
    using isResult_tag by blast
  show ?thesis
    by (cases b)
       (simp_all add: b assertResultOkEqual_eq [OF n] assertResultErrEqual_eq [OF n]
                      throw_new_Error_eq)
qed

lemma demo_result_objs:
  "obj_at demo_heap 16 = Some \<lparr>cls = PlainObj, props = [(''ok'', JBool True), (''value'', Ref 8)]\<rparr>"
  "obj_at demo_heap 17 = Some \<lparr>cls = PlainObj, props = [(''ok'', JBool False), (''error'', Ref 8)]\<rparr>"
  "obj_at demo_heap 8 = Some \<lparr>cls = PlainObj, props = [(''code'', JStr ''E'')]\<rparr>"
  "obj_at demo_heap 15 = Some \<lparr>cls = PlainObj, props = [(''code'', JStr ''E'')]\<rparr>"
  by (simp_all add: obj_at_def demo_heap_def)

lemma demo_isResult_16_17: "isResult demo_heap (Ref 16)" "isResult demo_heap (Ref 17)"
  by (auto simp: isResult_iff demo_result_objs fn_of_def)

theorem assert_equal_is_strict_witness:
  "isResult (heap demo_state) (Ref 16) \<and>
   obj_at demo_heap 8 = obj_at demo_heap 15 \<and>
   assertResultOkEqual (Ref 16) (Ref 8) demo_state = (Normal JUndefined, demo_state) \<and>
   assertResultOkEqual (Ref 16) (Ref 15) demo_state =
     (Throw (Ref 20),
      demo_state\<lparr>heap := demo_heap @ [error_obj ''Expected the value to be [object Object]'']\<rparr>) \<and>
   fst (assertResultErrEqual (Ref 16) (Ref 8) demo_state) = Throw (Ref 20)"
proof -
  have r: "isResult (heap demo_state) (Ref 16)"
    by (simp add: demo_state_def demo_isResult_16_17)
  have g: "get_prop (heap demo_state) (Ref 16) ''ok'' = JBool True"
          "get_prop (heap demo_state) (Ref 16) ''value'' = Ref 8"
    by (simp_all add: demo_state_def get_prop_obj demo_result_objs)
  have l: "length (heap demo_state) = 20" "heap demo_state = demo_heap"
    by (simp_all add: demo_state_def demo_length)
  show ?thesis
    using r g l demo_result_objs
      assert_equal_is_strict [OF r, of "Ref 8"] assert_equal_is_strict [OF r, of "Ref 15"]
    by simp
qed

section \<open>The adapters\<close>

subsection \<open>What \<open>handleError\<close> does, by the shape of the handler\<close>

lemma isResult_Ref: "isResult h r \<Longrightarrow> \<exists>a. r = Ref a"
  by (auto simp: isResult_iff)

lemma handleError_cases:
  "handleError env e hnd s =
     (if hnd = JUndefined then err (errMessage (heap s) e) s
      else if \<not> instanceof_Function (heap s) hnd then err hnd s
      else (case call env hnd [e] s of
              (Throw x, s1) \<Rightarrow> (Throw x, s1)
            | (Normal r, s1) \<Rightarrow> if isResult (heap s1) r then (Normal r, s1) else err r s1))"
  by (simp add: handleError_absent handleError_value handleError_inst)

lemma handleError_outcome:
  "(\<exists>r s2. handleError env e hnd s = (Normal r, s2) \<and> isResult (heap s2) r \<and>
      \<not> (\<exists>x s1. instanceof_Function (heap s) hnd \<and> call env hnd [e] s = (Throw x, s1)))
   \<or> (\<exists>x s1. instanceof_Function (heap s) hnd \<and> call env hnd [e] s = (Throw x, s1) \<and>
         handleError env e hnd s = (Throw x, s1))"
proof (cases "hnd \<noteq> JUndefined \<and> instanceof_Function (heap s) hnd")
  case False
  then have "handleError env e hnd s = err (if hnd = JUndefined then errMessage (heap s) e else hnd) s"
    by (auto simp: handleError_cases)
  moreover have "\<not> instanceof_Function (heap s) hnd"
    using False instanceof_FunctionD [of "heap s" hnd] by blast
  ultimately show ?thesis
    by (simp add: err_eq isResult_new_err)
next
  case True
  obtain c s1 where c: "call env hnd [e] s = (c, s1)"
    by (cases "call env hnd [e] s")
  show ?thesis
    using True by (cases c) (simp_all add: handleError_cases c err_eq isResult_new_err)
qed

lemma call_heap_only:
  assumes "heap s = heap s'"
  shows "fst (call env f args s) = fst (call env f args s')"
    and "heap (snd (call env f args s)) = heap (snd (call env f args s'))"
  using assms
  by (auto simp: call_def throw_new_Error_eq split: option.splits prod.splits)

lemma handleError_heap_only:
  assumes "heap s = heap s'"
  shows "fst (handleError env e hnd s) = fst (handleError env e hnd s')"
    and "heap (snd (handleError env e hnd s)) = heap (snd (handleError env e hnd s'))"
proof -
  obtain c s1 where c: "call env hnd [e] s = (c, s1)"
    by (cases "call env hnd [e] s")
  obtain c' s1' where c': "call env hnd [e] s' = (c', s1')"
    by (cases "call env hnd [e] s'")
  from call_heap_only [OF assms, of env hnd "[e]"] c c'
  have eq: "c' = c" "heap s1' = heap s1"
    by simp_all
  show "fst (handleError env e hnd s) = fst (handleError env e hnd s')"
    using assms eq by (cases c) (simp_all add: handleError_cases c c' err_eq)
  show "heap (snd (handleError env e hnd s)) = heap (snd (handleError env e hnd s'))"
    using assms eq by (cases c) (simp_all add: handleError_cases c c' err_eq)
qed

lemma fn_of_append_old: "a < length h \<Longrightarrow> fn_of (h @ [ob]) (Ref a) = fn_of h (Ref a)"
  by (simp add: fn_of_def obj_at_append_old)

lemma instanceof_Function_append_old:
  "a < length h \<Longrightarrow> instanceof_Function (h @ [ob]) (Ref a) = instanceof_Function h (Ref a)"
  by (simp add: instanceof_Function_def obj_at_append_old)

lemma demo_call_6:
  "call demo_env (Ref 6) [] demo_state =
     (Normal (Promise 1 (Rejected (Ref 20))),
      \<lparr>heap = demo_heap @ [error_obj ''boom''], trace = [(6, [])]\<rparr>)"
  by (simp add: call_def demo_state_def demo_fn_of demo_env_def demo_length)

lemma demo_call_7:
  "call demo_env (Ref 7) [] demo_state =
     (Throw (JStr ''plain text''), \<lparr>heap = demo_heap, trace = [(7, [])]\<rparr>)"
  by (simp add: call_def demo_state_def demo_fn_of demo_env_def demo_length)

lemma demo_handlers_after_0:
  "fn_of (demo_heap @ [error_obj ''boom'']) (Ref 3) = Some 3"
  "instanceof_Function (demo_heap @ [error_obj ''boom'']) (Ref 3)"
  "\<not> instanceof_Function (demo_heap @ [error_obj ''boom'']) (Ref 8)"
  by (simp_all add: fn_of_append_old instanceof_Function_append_old demo_length demo_fn_of)
     (simp_all add: instanceof_Function_def obj_at_def demo_heap_def)

lemma obj_at_append_left: "a < length h \<Longrightarrow> obj_at (h @ hs) a = obj_at h a"
  by (simp add: obj_at_def nth_append)

lemma demo_fn_of2:
  "fn_of demo_heap2 (Ref 0) = Some 0" "fn_of demo_heap2 (Ref 6) = Some 6"
  "fn_of demo_heap2 (Ref 20) = Some 1" "fn_of demo_heap2 (Ref 21) = None"
  "fn_of demo_heap2 (Ref 22) = Some 9" "fn_of demo_heap2 (Ref 24) = Some 10"
  using demo_fn_of(1,7)
  by (simp_all add: fn_of_def demo_objs2)
     (simp_all add: demo_heap2_def obj_at_append_left demo_length)

lemma demo_inst2:
  "\<not> instanceof_Function demo_heap2 (Ref 20)" "instanceof_Function demo_heap2 (Ref 21)"
  "instanceof_Function demo_heap2 (Ref 24)"
  by (simp_all add: instanceof_Function_def demo_objs2)

lemma demo_call2_0:
  "call demo_env (Ref 0) [] demo_state2 =
     (Throw (Ref 25), \<lparr>heap = demo_heap2 @ [error_obj ''boom''], trace = [(0, [])]\<rparr>)"
  "call demo_env2 (Ref 0) [] demo_state2 =
     (Throw (Ref 25), \<lparr>heap = demo_heap2 @ [error_obj ''boom''], trace = [(0, [])]\<rparr>)"
  by (simp_all add: call_def demo_state2_def demo_fn_of2 demo_env2_def demo_env_def demo_length2)

lemma demo_call2_6:
  "call demo_env2 (Ref 6) [] demo_state2 =
     (Normal (Promise 1 (Rejected (Ref 25))),
      \<lparr>heap = demo_heap2 @ [error_obj ''boom''], trace = [(6, [])]\<rparr>)"
  by (simp add: call_def demo_state2_def demo_fn_of2 demo_env2_def demo_env_def demo_length2)


subsection \<open>The operation returns\<close>

text \<open>
  Claim C4. When the operation \<open>fn\<close> returns normally, \<open>resolve(fn, handler)\<close> returns the very
  value that \<open>fn\<close> returned, for every handler (the absent one, \<open>undefined\<close>, included) and
  whether that value is a success or a failure Result; the heap is the one \<open>fn\<close> left, and
  the log shows one call of \<open>fn\<close>, with no argument, and nothing else.
\<close>

theorem resolve_passes_result_through:
  assumes "fn_of (heap s) fn = Some f" and "env f [] (heap s) = (Normal r, h1)"
  shows "resolve env fn handler s = (Normal r, \<lparr>heap = h1, trace = trace s @ [(f, [])]\<rparr>)"
  using assms by (simp add: resolve_def call_fn)

lemma demo_call_4:
  "demo_env 4 [] demo_heap = (Normal (Ref 20), demo_heap @ [err_obj (JStr ''declared'')])"
  by (simp add: demo_env_def demo_length)

theorem resolve_passes_result_through_witness:
  "fn_of (heap demo_state) (Ref 4) = Some 4 \<and>
   demo_env 4 [] (heap demo_state) = (Normal (Ref 20), demo_heap @ [err_obj (JStr ''declared'')]) \<and>
   resolve demo_env (Ref 4) JUndefined demo_state =
     (Normal (Ref 20), \<lparr>heap = demo_heap @ [err_obj (JStr ''declared'')], trace = [(4, [])]\<rparr>) \<and>
   resolve demo_env (Ref 4) (Ref 1) demo_state =
     (Normal (Ref 20), \<lparr>heap = demo_heap @ [err_obj (JStr ''declared'')], trace = [(4, [])]\<rparr>) \<and>
   failure_with (demo_heap @ [err_obj (JStr ''declared'')]) (Ref 20) (JStr ''declared'')"
proof -
  have a: "fn_of (heap demo_state) (Ref 4) = Some 4"
    by (simp add: demo_state_def demo_fn_of)
  have b: "demo_env 4 [] (heap demo_state) =
             (Normal (Ref 20), demo_heap @ [err_obj (JStr ''declared'')])"
    by (simp add: demo_state_def demo_call_4)
  have c: "failure_with (demo_heap @ [err_obj (JStr ''declared'')]) (Ref 20) (JStr ''declared'')"
    using failure_with_new_err [of demo_heap "JStr ''declared''"] by (simp add: demo_length)
  show ?thesis
    using a b c resolve_passes_result_through [where env = demo_env and handler = JUndefined, OF a b]
      resolve_passes_result_through [where env = demo_env and handler = "Ref 1", OF a b]
    by (simp add: demo_state_def)
qed

subsection \<open>The handler is a function\<close>

lemma success_with_tag: "success_with h v x \<Longrightarrow> get_prop h v ''ok'' = JBool True"
  by (simp add: success_with_def)

lemma new_err_not_success: "\<not> success_with (h @ [err_obj e]) (Ref (length h)) x"
  by (simp add: success_with_def get_prop_def obj_at_append_new err_obj_def)

text \<open>
  Claim C2, as amended. The claim speaks of every handler that can be called. The code
  calls the handler when it is an instance of \<open>Function\<close>. For a handler that is an
  instance of \<open>Function\<close> and can be called (an ordinary function), \<open>handleError\<close> calls it
  once, with the caught value as its only argument, and calls nothing else. If the value
  the handler returns passes \<open>isResult\<close>, that value is the outcome, unchanged; otherwise the
  outcome is a new failure Result that carries the returned value. Whatever the handler
  is, an outcome of \<open>handleError\<close> that is a success Result is the value that such a
  handler returned.
\<close>

theorem handler_function_delegated:
  assumes "instanceof_Function (heap s) handler" and "fn_of (heap s) handler = Some g"
  shows
   "trace (snd (handleError env e handler s)) = trace s @ [(g, [e])]
    \<and> (\<forall>r h1. env g [e] (heap s) = (Normal r, h1) \<and> isResult h1 r \<longrightarrow>
          handleError env e handler s = (Normal r, \<lparr>heap = h1, trace = trace s @ [(g, [e])]\<rparr>))
    \<and> (\<forall>r h1. env g [e] (heap s) = (Normal r, h1) \<and> \<not> isResult h1 r \<longrightarrow>
          handleError env e handler s =
            (Normal (Ref (length h1)),
             \<lparr>heap = h1 @ [err_obj r], trace = trace s @ [(g, [e])]\<rparr>) \<and>
          failure_with (h1 @ [err_obj r]) (Ref (length h1)) r)
    \<and> (\<forall>hnd v s2 x. handleError env e hnd s = (Normal v, s2) \<and> success_with (heap s2) v x \<longrightarrow>
          (\<exists>g' h1. instanceof_Function (heap s) hnd \<and> fn_of (heap s) hnd = Some g' \<and>
                    env g' [e] (heap s) = (Normal v, h1) \<and> isResult h1 v \<and> heap s2 = h1))"
proof -
  obtain c h1 where c: "env g [e] (heap s) = (c, h1)"
    by (cases "env g [e] (heap s)")
  have t: "trace (snd (handleError env e handler s)) = trace s @ [(g, [e])]"
    by (cases c) (simp_all add: handleError_fn [where env = env, OF assms c] err_eq)
  have pass: "handleError env e handler s =
                (Normal r, \<lparr>heap = h1, trace = trace s @ [(g, [e])]\<rparr>)"
    if "env g [e] (heap s) = (Normal r, h1)" "isResult h1 r" for r h1
    using that by (simp add: handleError_fn [where env = env, OF assms that(1)])
  have wrap: "handleError env e handler s =
            (Normal (Ref (length h1)),
             \<lparr>heap = h1 @ [err_obj r], trace = trace s @ [(g, [e])]\<rparr>) \<and>
          failure_with (h1 @ [err_obj r]) (Ref (length h1)) r"
    if "env g [e] (heap s) = (Normal r, h1)" "\<not> isResult h1 r" for r h1
    using that
    by (simp add: handleError_fn [where env = env, OF assms that(1)] err_eq failure_with_new_err)
  have only: "\<exists>g' h1. instanceof_Function (heap s) hnd \<and> fn_of (heap s) hnd = Some g' \<and>
                    env g' [e] (heap s) = (Normal v, h1) \<and> isResult h1 v \<and> heap s2 = h1"
    if h: "handleError env e hnd s = (Normal v, s2)" and sw: "success_with (heap s2) v x"
    for hnd v s2 x
  proof (cases "hnd \<noteq> JUndefined \<and> instanceof_Function (heap s) hnd")
    case False
    then have "handleError env e hnd s =
                 err (if hnd = JUndefined then errMessage (heap s) e else hnd) s"
      using instanceof_FunctionD [of "heap s" hnd] by (auto simp: handleError_cases)
    with h sw show ?thesis
      using new_err_not_success [of "heap s" _ x] by (auto simp: err_eq)
  next
    case True
    then have inst: "instanceof_Function (heap s) hnd"
      by simp
    show ?thesis
    proof (cases "fn_of (heap s) hnd")
      case None
      with h inst show ?thesis
        by (simp add: handleError_not_callable throw_new_Error_eq)
    next
      case (Some g')
      obtain c' h' where c': "env g' [e] (heap s) = (c', h')"
        by (cases "env g' [e] (heap s)")
      note hf = handleError_fn [where env = env, OF inst Some c']
      show ?thesis
      proof (cases c')
        case (Throw y)
        with h show ?thesis
          by (simp add: hf)
      next
        case (Normal r)
        show ?thesis
        proof (cases "isResult h' r")
          case True
          with h Normal Some c' inst show ?thesis
            by (auto simp: hf)
        next
          case False
          with h Normal sw show ?thesis
            using new_err_not_success [of h' r x]
            by (auto simp: hf err_eq)
        qed
      qed
    qed
  qed
  show ?thesis
    using t pass wrap only by blast
qed

lemma demo_not_result_str: "\<not> isResult h (JStr t)"
  by (simp add: isResult_iff)

lemma demo_inst_1_2:
  "instanceof_Function demo_heap (Ref 1)" "instanceof_Function demo_heap (Ref 2)"
  by (simp_all add: instanceof_Function_def obj_at_def demo_heap_def)

theorem handler_function_delegated_witness:
  "instanceof_Function (heap demo_state) (Ref 1) \<and>
   fn_of (heap demo_state) (Ref 1) = Some 1 \<and>
   instanceof_Function (heap demo_state) (Ref 2) \<and>
   fn_of (heap demo_state) (Ref 2) = Some 2 \<and>
   handleError demo_env (JStr ''boom'') (Ref 1) demo_state =
     (Normal (Ref 20),
      \<lparr>heap = demo_heap @ [err_obj (JStr ''boom'')], trace = [(1, [JStr ''boom''])]\<rparr>) \<and>
   handleError demo_env (JStr ''boom'') (Ref 2) demo_state =
     (Normal (Ref 20),
      \<lparr>heap = demo_heap @ [ok_obj (JNum 42)], trace = [(2, [JStr ''boom''])]\<rparr>) \<and>
   success_with (demo_heap @ [ok_obj (JNum 42)]) (Ref 20) (JNum 42)"
proof -
  have f1: "fn_of (heap demo_state) (Ref 1) = Some 1"
    and f2: "fn_of (heap demo_state) (Ref 2) = Some 2"
    by (simp_all add: demo_state_def demo_fn_of del: One_nat_def)
  have i1: "instanceof_Function (heap demo_state) (Ref 1)"
    and i2: "instanceof_Function (heap demo_state) (Ref 2)"
    by (simp_all add: demo_state_def demo_inst_1_2 del: One_nat_def)
  have e1: "demo_env 1 [JStr ''boom''] (heap demo_state) = (Normal (JStr ''boom''), demo_heap)"
    and e2: "demo_env 2 [JStr ''boom''] (heap demo_state) =
               (Normal (Ref 20), demo_heap @ [ok_obj (JNum 42)])"
    by (simp_all add: demo_state_def demo_env_def demo_length)
  have r2: "isResult (demo_heap @ [ok_obj (JNum 42)]) (Ref 20)"
    using isResult_new_ok [of demo_heap "JNum 42"] by (simp add: demo_length)
  have s2: "success_with (demo_heap @ [ok_obj (JNum 42)]) (Ref 20) (JNum 42)"
    using r2 obj_at_append_new [of demo_heap "ok_obj (JNum 42)"]
    by (simp add: success_with_def get_prop_def demo_length ok_obj_def)
  have w1: "handleError demo_env (JStr ''boom'') (Ref 1) demo_state =
     (Normal (Ref 20),
      \<lparr>heap = demo_heap @ [err_obj (JStr ''boom'')], trace = [(1, [JStr ''boom''])]\<rparr>)"
    using handler_function_delegated [where env = demo_env and e = "JStr ''boom''", OF i1 f1]
      e1 demo_not_result_str [of demo_heap "''boom''"]
    by (simp add: demo_state_def demo_length)
  have w2: "handleError demo_env (JStr ''boom'') (Ref 2) demo_state =
     (Normal (Ref 20),
      \<lparr>heap = demo_heap @ [ok_obj (JNum 42)], trace = [(2, [JStr ''boom''])]\<rparr>)"
    using handler_function_delegated [where env = demo_env and e = "JStr ''boom''", OF i2 f2]
      e2 r2
    by (simp add: demo_state_def)
  from f1 f2 i1 i2 w1 w2 s2 show ?thesis by simp
qed

text \<open>
  The claim as it was stated fails at a handler that can be called and is not an instance
  of \<open>Function\<close>, the function \<^verbatim>\<open>(e) => e\<close> after \<^verbatim>\<open>Object.setPrototypeOf(f, null)\<close>: the code
  never calls it (the log stays empty) and returns it as the error of a new failure
  Result.
\<close>

theorem handler_function_delegated_counterexample:
  "fn_of (heap demo_state2) (Ref 20) = Some 1 \<and>
   handleError demo_env (JStr ''boom'') (Ref 20) demo_state2 =
     (Normal (Ref 25), \<lparr>heap = demo_heap2 @ [err_obj (Ref 20)], trace = []\<rparr>)"
proof -
  have n: "\<not> instanceof_Function (heap demo_state2) (Ref 20)"
    by (simp add: demo_state2_def demo_inst2)
  have "handleError demo_env (JStr ''boom'') (Ref 20) demo_state2 = err (Ref 20) demo_state2"
    using n by (simp add: handleError_value)
  then show ?thesis
    by (simp add: err_eq demo_state2_def demo_fn_of2 demo_length2)
qed

subsection \<open>The operation raises\<close>

text \<open>
  Claim C5, as amended. Let the operation raise \<open>e\<close>: it throws \<open>e\<close>, or (for \<open>resolveAsync\<close>)
  it returns a promise that rejects with \<open>e\<close>. The claim lets one failure leave the adapter,
  the one that a callable handler raises. The code lets the failure of the call of the
  handler leave it, whenever the handler is an instance of \<open>Function\<close>: the body of the
  handler throws, or the handler cannot be called and the call throws a \<open>TypeError\<close>. Then
  \<open>resolve\<close> throws that failure and the promise of \<open>resolveAsync\<close> rejects with it. In
  every other case \<open>handleError\<close> returns a value that passes \<open>isResult\<close>; \<open>resolve\<close> returns
  it, and the promise of \<open>resolveAsync\<close> is resolved with it: it fulfils with it when that
  Result is not thenable.
\<close>

theorem raised_failure_becomes_result:
  assumes "call env fn [] s = (c, s1)"
      and "c = Throw e \<or> c = Normal (Promise i (Rejected e))"
  shows
   "(\<forall>x s2. instanceof_Function (heap s1) handler \<and> call env handler [e] s1 = (Throw x, s2) \<longrightarrow>
        resolveAsync env tenv fn handler s = (Rejected x, s2) \<and>
        (c = Throw e \<longrightarrow> resolve env fn handler s = (Throw x, s2)))
    \<and> (\<not> (\<exists>x s2. instanceof_Function (heap s1) handler \<and>
                  call env handler [e] s1 = (Throw x, s2)) \<longrightarrow>
        (\<exists>r s2. handleError env e handler s1 = (Normal r, s2) \<and> isResult (heap s2) r \<and>
                 (c = Throw e \<longrightarrow> resolve env fn handler s = (Normal r, s2)) \<and>
                 resolveAsync env tenv fn handler s = resolution tenv r s2 \<and>
                 (then_of (heap s2) r = None \<longrightarrow>
                    resolveAsync env tenv fn handler s = (Fulfilled r, s2))))
    \<and> (\<forall>x s2. call env handler [e] s1 = (Throw x, s2) \<longrightarrow>
          (\<exists>g h2. fn_of (heap s1) handler = Some g \<and> env g [e] (heap s1) = (Throw x, h2)) \<or>
          (fn_of (heap s1) handler = None \<and>
           (Throw x, s2) = throw_new_Error ''fn is not a function'' s1))"
proof -
  have sync: "resolve env fn handler s = handleError env e handler s1" if "c = Throw e"
    using assms(1) that by (simp add: resolve_def)
  have async: "resolveAsync env tenv fn handler s = settle tenv (handleError env e handler s1)"
    using assms by (auto simp: resolveAsync_def resolution_promise)
  have raises: "resolveAsync env tenv fn handler s = (Rejected x, s2) \<and>
        (c = Throw e \<longrightarrow> resolve env fn handler s = (Throw x, s2))"
    if "instanceof_Function (heap s1) handler" "call env handler [e] s1 = (Throw x, s2)" for x s2
    using that by (simp add: async sync handleError_inst settle_throw)
  have returns: "\<exists>r s2. handleError env e handler s1 = (Normal r, s2) \<and> isResult (heap s2) r \<and>
                 (c = Throw e \<longrightarrow> resolve env fn handler s = (Normal r, s2)) \<and>
                 resolveAsync env tenv fn handler s = resolution tenv r s2 \<and>
                 (then_of (heap s2) r = None \<longrightarrow>
                    resolveAsync env tenv fn handler s = (Fulfilled r, s2))"
    if "\<not> (\<exists>x s2. instanceof_Function (heap s1) handler \<and>
                  call env handler [e] s1 = (Throw x, s2))"
  proof -
    from that handleError_outcome [of env e handler s1]
    obtain r s2 where h: "handleError env e handler s1 = (Normal r, s2)"
      and r: "isResult (heap s2) r"
      by blast
    from r obtain a where a: "r = Ref a"
      using isResult_Ref by blast
    have "resolveAsync env tenv fn handler s = resolution tenv r s2"
      by (simp add: async h settle_def)
    moreover have "resolution tenv r s2 = (Fulfilled r, s2)" if "then_of (heap s2) r = None"
      using that a by (simp add: resolution_not_thenable)
    ultimately show ?thesis
      using h r by (simp add: sync)
  qed
  have why: "(\<exists>g h2. fn_of (heap s1) handler = Some g \<and> env g [e] (heap s1) = (Throw x, h2)) \<or>
          (fn_of (heap s1) handler = None \<and>
           (Throw x, s2) = throw_new_Error ''fn is not a function'' s1)"
    if "call env handler [e] s1 = (Throw x, s2)" for x s2
    using that by (auto simp: call_def split: option.splits prod.splits)
  show ?thesis
    using raises returns why by blast
qed

lemma demo_call_3_after_0:
  "call demo_env (Ref 3) [Ref 20] \<lparr>heap = demo_heap @ [error_obj ''boom''], trace = [(0, [])]\<rparr> =
     (Throw (JStr ''handler failed''),
      \<lparr>heap = demo_heap @ [error_obj ''boom''], trace = [(0, []), (3, [Ref 20])]\<rparr>)"
  by (simp add: call_def demo_handlers_after_0 demo_env_def)

theorem raised_failure_becomes_result_witness:
  "call demo_env (Ref 0) [] demo_state =
     (Throw (Ref 20), \<lparr>heap = demo_heap @ [error_obj ''boom''], trace = [(0, [])]\<rparr>) \<and>
   fst (resolve demo_env (Ref 0) (Ref 3) demo_state) = Throw (JStr ''handler failed'') \<and>
   fst (resolveAsync demo_env demo_tenv (Ref 0) (Ref 3) demo_state) =
     Rejected (JStr ''handler failed'') \<and>
   (\<exists>r s2. resolve demo_env (Ref 0) (Ref 8) demo_state = (Normal r, s2) \<and>
            isResult (heap s2) r)"
proof -
  note c = demo_call_0
  have t: "Throw (Ref 20) = Throw (Ref 20) \<or> Throw (Ref 20) = Normal (Promise 0 (Rejected (Ref 20)))"
    by simp
  have a: "fst (resolve demo_env (Ref 0) (Ref 3) demo_state) = Throw (JStr ''handler failed'') \<and>
           fst (resolveAsync demo_env demo_tenv (Ref 0) (Ref 3) demo_state) =
             Rejected (JStr ''handler failed'')"
    using raised_failure_becomes_result
            [where env = demo_env and tenv = demo_tenv and handler = "Ref 3", OF c t]
      demo_handlers_after_0(2) demo_call_3_after_0
    by simp
  have b: "\<exists>r s2. resolve demo_env (Ref 0) (Ref 8) demo_state = (Normal r, s2) \<and>
            isResult (heap s2) r"
    using raised_failure_becomes_result
            [where env = demo_env and tenv = demo_tenv and handler = "Ref 8", OF c t]
      demo_handlers_after_0(3)
    by auto
  from c a b show ?thesis by simp
qed

text \<open>
  The claim as it was stated fails at the handler made by
  \<^verbatim>\<open>Object.create(Function.prototype)\<close>: the operation throws, the handler cannot be called,
  so no callable handler raises, and yet the caller receives no Result: \<open>resolve\<close> throws
  the \<open>TypeError\<close> of the call.
\<close>

lemma demo_handler_21_after_0:
  "instanceof_Function (demo_heap2 @ [error_obj ''boom'']) (Ref 21)"
  "fn_of (demo_heap2 @ [error_obj ''boom'']) (Ref 21) = None"
  by (simp_all add: instanceof_Function_append_old fn_of_append_old demo_length2
                    demo_inst2 demo_fn_of2)

theorem raised_failure_becomes_result_counterexample:
  "call demo_env (Ref 0) [] demo_state2 =
     (Throw (Ref 25), \<lparr>heap = demo_heap2 @ [error_obj ''boom''], trace = [(0, [])]\<rparr>) \<and>
   fn_of (demo_heap2 @ [error_obj ''boom'']) (Ref 21) = None \<and>
   resolve demo_env (Ref 0) (Ref 21) demo_state2 =
     (Throw (Ref 26),
      \<lparr>heap = demo_heap2 @ [error_obj ''boom'', error_obj ''fn is not a function''],
       trace = [(0, [])]\<rparr>)"
proof -
  let ?s1 = "\<lparr>heap = demo_heap2 @ [error_obj ''boom''], trace = [(0, [])]\<rparr>"
  have "handleError demo_env (Ref 25) (Ref 21) ?s1 = throw_new_Error ''fn is not a function'' ?s1"
    by (rule handleError_not_callable) (simp_all add: demo_handler_21_after_0)
  then show ?thesis
    by (simp add: resolve_def demo_call2_0 demo_handler_21_after_0 throw_new_Error_eq
                  demo_length2)
qed

subsection \<open>The asynchronous adapter against the synchronous one\<close>

text \<open>
  Claim C6, as amended. Take an operation that returns a promise and the synchronous
  operation that corresponds to it: the one returns (leaving the same heap) the value with
  which the promise of the other fulfils (a value that is neither a promise nor a
  thenable), or throws the value with which it rejects. A
  promise that fulfils with a Result, a failure Result included, is passed through as it
  is, and a rejection goes through \<open>handleError\<close> as a thrown value does, with the same
  handler. The promise of \<open>resolveAsync\<close> rejects with the value that \<open>resolve\<close> throws, and
  fulfils with the value that \<open>resolve\<close> returns when that value is not thenable; both then
  leave the same heap. When the handler returns a Result that is thenable, \<open>resolve\<close>
  returns it, while the promise of \<open>resolveAsync\<close> adopts it and settles as its \<open>then\<close>
  decides.
\<close>

theorem resolveAsync_mirrors_resolve:
  assumes fa: "fn_of (heap s) fa = Some ida"
      and fs: "fn_of (heap s) fs = Some ids"
      and async_op: "env ida [] (heap s) = (Normal (Promise i st), h1)"
      and sync_op: "env ids [] (heap s) = (c, h1)"
      and same: "(\<exists>v. c = Normal v \<and> st = Fulfilled v \<and> (\<forall>j st'. v \<noteq> Promise j st') \<and>
                      then_of h1 v = None) \<or>
                 (\<exists>x. c = Throw x \<and> st = Rejected x)"
  shows
   "(\<forall>r s2. resolve env fs handler s = (Normal r, s2) \<and> then_of (heap s2) r = None \<longrightarrow>
          fst (resolveAsync env tenv fa handler s) = Fulfilled r \<and>
          heap (snd (resolveAsync env tenv fa handler s)) = heap s2)
    \<and> (\<forall>x s2. resolve env fs handler s = (Throw x, s2) \<longrightarrow>
          fst (resolveAsync env tenv fa handler s) = Rejected x \<and>
          heap (snd (resolveAsync env tenv fa handler s)) = heap s2)
    \<and> (\<forall>v. c = Normal v \<longrightarrow>
          resolve env fs handler s = (Normal v, \<lparr>heap = h1, trace = trace s @ [(ids, [])]\<rparr>) \<and>
          resolveAsync env tenv fa handler s =
            (Fulfilled v, \<lparr>heap = h1, trace = trace s @ [(ida, [])]\<rparr>))
    \<and> (\<forall>x. c = Throw x \<longrightarrow>
          resolve env fs handler s =
            handleError env x handler \<lparr>heap = h1, trace = trace s @ [(ids, [])]\<rparr> \<and>
          resolveAsync env tenv fa handler s =
            settle tenv (handleError env x handler \<lparr>heap = h1, trace = trace s @ [(ida, [])]\<rparr>))
    \<and> (\<forall>r s2 t. resolve env fs handler s = (Normal r, s2) \<and> then_of (heap s2) r = Some t \<longrightarrow>
          fst (resolveAsync env tenv fa handler s) = fst (tenv t r (heap s2)))"
proof -
  let ?sa = "\<lparr>heap = h1, trace = trace s @ [(ida, [])]\<rparr>"
  let ?ss = "\<lparr>heap = h1, trace = trace s @ [(ids, [])]\<rparr>"
  have ca: "call env fa [] s = (Normal (Promise i st), ?sa)"
    using fa async_op by (simp add: call_fn)
  have cs: "call env fs [] s = (c, ?ss)"
    using fs sync_op by (simp add: call_fn)
  from same show ?thesis
  proof (elim disjE exE conjE)
    fix v
    assume v: "c = Normal v" "st = Fulfilled v" "\<forall>j st'. v \<noteq> Promise j st'"
      "then_of h1 v = None"
    have "resolution tenv v ?sa = (Fulfilled v, ?sa)"
      using v(3,4) by (simp add: resolution_not_thenable)
    then show ?thesis
      using v ca cs by (simp add: resolve_def resolveAsync_def resolution_promise settle_def)
  next
    fix x
    assume x: "c = Throw x" "st = Rejected x"
    let ?ha = "handleError env x handler ?sa"
    let ?hs = "handleError env x handler ?ss"
    have rs: "resolve env fs handler s = ?hs"
      using x cs by (simp add: resolve_def)
    have ra: "resolveAsync env tenv fa handler s = settle tenv ?ha"
      using x ca by (simp add: resolveAsync_def resolution_promise)
    have eq: "fst ?ha = fst ?hs" "heap (snd ?ha) = heap (snd ?hs)"
      by (simp_all add: handleError_heap_only [of ?sa ?ss])
    have thrown: "fst (settle tenv ?ha) = Rejected y \<and> heap (snd (settle tenv ?ha)) = heap s2"
      if "?hs = (Throw y, s2)" for y s2
    proof -
      from that eq have "fst ?ha = Throw y" "heap (snd ?ha) = heap s2"
        by simp_all
      then show ?thesis
        by (cases ?ha) (simp add: settle_def)
    qed
    have returned: "fst (settle tenv ?ha) = Fulfilled r \<and> heap (snd (settle tenv ?ha)) = heap s2"
      if "?hs = (Normal r, s2)" "then_of (heap s2) r = None" for r s2
    proof -
      from that(1) eq have h: "fst ?ha = Normal r" "heap (snd ?ha) = heap s2"
        by simp_all
      from handleError_outcome [of env x handler ?ss] that(1)
      have "isResult (heap s2) r"
        by auto
      then obtain a where "r = Ref a"
        using isResult_Ref by blast
      then have "resolution tenv r (snd ?ha) = (Fulfilled r, snd ?ha)"
        using that(2) h(2) by (simp add: resolution_not_thenable)
      with h show ?thesis
        by (cases ?ha) (simp add: settle_def)
    qed
    have adopted: "fst (settle tenv ?ha) = fst (tenv t r (heap s2))"
      if "?hs = (Normal r, s2)" "then_of (heap s2) r = Some t" for r s2 t
    proof -
      from that(1) eq have h: "fst ?ha = Normal r" "heap (snd ?ha) = heap s2"
        by simp_all
      from that(2) obtain a where a: "r = Ref a"
        by (cases r) (simp_all add: then_of_def)
      have "resolution tenv r (snd ?ha) =
              (case tenv t r (heap s2) of (st, h') \<Rightarrow> (st, (snd ?ha)\<lparr>heap := h'\<rparr>))"
        using that(2) h(2) a by (simp add: resolution_thenable)
      with h show ?thesis
        by (cases ?ha; cases "tenv t r (heap s2)") (simp add: settle_def)
    qed
    show ?thesis
      using x thrown returned adopted by (simp add: rs ra)
  qed
qed

theorem resolveAsync_mirrors_resolve_witness:
  "fn_of (heap demo_state) (Ref 5) = Some 5 \<and> fn_of (heap demo_state) (Ref 4) = Some 4 \<and>
   demo_env 5 [] (heap demo_state) =
     (Normal (Promise 0 (Fulfilled (Ref 20))), demo_heap @ [err_obj (JStr ''declared'')]) \<and>
   demo_env 4 [] (heap demo_state) = (Normal (Ref 20), demo_heap @ [err_obj (JStr ''declared'')]) \<and>
   resolve demo_env (Ref 4) (Ref 8) demo_state =
     (Normal (Ref 20), \<lparr>heap = demo_heap @ [err_obj (JStr ''declared'')], trace = [(4, [])]\<rparr>) \<and>
   resolveAsync demo_env demo_tenv (Ref 5) (Ref 8) demo_state =
     (Fulfilled (Ref 20), \<lparr>heap = demo_heap @ [err_obj (JStr ''declared'')], trace = [(5, [])]\<rparr>)"
proof -
  have fa: "fn_of (heap demo_state) (Ref 5) = Some 5"
    and fs: "fn_of (heap demo_state) (Ref 4) = Some 4"
    by (simp_all add: demo_state_def demo_fn_of)
  have a: "demo_env 5 [] (heap demo_state) =
     (Normal (Promise 0 (Fulfilled (Ref 20))), demo_heap @ [err_obj (JStr ''declared'')])"
    and b: "demo_env 4 [] (heap demo_state) =
     (Normal (Ref 20), demo_heap @ [err_obj (JStr ''declared'')])"
    by (simp_all add: demo_state_def demo_env_def demo_length)
  have t: "then_of (demo_heap @ [err_obj (JStr ''declared'')]) (Ref 20) = None"
    using then_of_new_err [of demo_heap "JStr ''declared''"] by (simp add: demo_length)
  have c: "(\<exists>v. Normal (Ref 20) = Normal v \<and> Fulfilled (Ref 20) = Fulfilled v \<and>
              (\<forall>j st'. v \<noteq> Promise j st') \<and>
              then_of (demo_heap @ [err_obj (JStr ''declared'')]) v = None) \<or>
           (\<exists>x. Normal (Ref 20) = Throw x \<and> Fulfilled (Ref 20) = Rejected x)"
    using t by simp
  show ?thesis
    using fa fs a b
      resolveAsync_mirrors_resolve
        [where env = demo_env and tenv = demo_tenv and handler = "Ref 8", OF fa fs a b c]
    by (simp add: demo_state_def)
qed

text \<open>
  The claim as it was stated fails when the handler returns a Result that is thenable. The
  operations are \<^verbatim>\<open>() => { throw new Error('boom') }\<close> and
  \<^verbatim>\<open>() => Promise.reject(new Error('boom'))\<close>; the handler returns the object
  \<^verbatim>\<open>{ ok: false, error: 'x', then: t }\<close>, which passes \<open>isResult\<close>. \<open>resolve\<close> returns that
  object; the promise of \<open>resolveAsync\<close> adopts it, and its \<open>then\<close> rejects the promise.
\<close>

lemma demo_thenable_after_0:
  "instanceof_Function (demo_heap2 @ [error_obj ''boom'']) (Ref 24)"
  "fn_of (demo_heap2 @ [error_obj ''boom'']) (Ref 24) = Some 10"
  "obj_at (demo_heap2 @ [error_obj ''boom'']) 23 =
     Some \<lparr>cls = PlainObj,
           props = [(''ok'', JBool False), (''error'', JStr ''x''), (''then'', Ref 22)]\<rparr>"
  "fn_of (demo_heap2 @ [error_obj ''boom'']) (Ref 22) = Some 9"
  by (simp_all add: instanceof_Function_append_old fn_of_append_old obj_at_append_old
                    demo_length2 demo_inst2 demo_fn_of2 demo_objs2)

lemma demo_thenable_result: "isResult (demo_heap2 @ [error_obj ''boom'']) (Ref 23)"
  by (auto simp: isResult_iff fn_of_def demo_thenable_after_0(3))

lemma demo_thenable_then: "then_of (demo_heap2 @ [error_obj ''boom'']) (Ref 23) = Some 9"
  using demo_thenable_after_0(4)
  by (simp add: then_of_def get_prop_def demo_thenable_after_0(3))

lemma demo_handle_thenable:
  "handleError demo_env2 (Ref 25) (Ref 24) \<lparr>heap = demo_heap2 @ [error_obj ''boom''], trace = tr\<rparr> =
     (Normal (Ref 23),
      \<lparr>heap = demo_heap2 @ [error_obj ''boom''], trace = tr @ [(10, [Ref 25])]\<rparr>)"
proof -
  let ?s = "\<lparr>heap = demo_heap2 @ [error_obj ''boom''], trace = tr\<rparr>"
  have i: "instanceof_Function (heap ?s) (Ref 24)"
    and f: "fn_of (heap ?s) (Ref 24) = Some 10"
    by (simp_all add: demo_thenable_after_0)
  have e: "demo_env2 10 [Ref 25] (heap ?s) = (Normal (Ref 23), demo_heap2 @ [error_obj ''boom''])"
    by (simp add: demo_env2_def)
  show ?thesis
    by (simp add: handleError_fn [where env = demo_env2, OF i f e] demo_thenable_result)
qed

theorem resolveAsync_mirrors_resolve_counterexample:
  "isResult (demo_heap2 @ [error_obj ''boom'']) (Ref 23) \<and>
   resolve demo_env2 (Ref 0) (Ref 24) demo_state2 =
     (Normal (Ref 23),
      \<lparr>heap = demo_heap2 @ [error_obj ''boom''], trace = [(0, []), (10, [Ref 25])]\<rparr>) \<and>
   resolveAsync demo_env2 demo_tenv (Ref 6) (Ref 24) demo_state2 =
     (Rejected (JStr ''from then''),
      \<lparr>heap = demo_heap2 @ [error_obj ''boom''], trace = [(6, []), (10, [Ref 25])]\<rparr>)"
proof -
  have a: "resolve demo_env2 (Ref 0) (Ref 24) demo_state2 =
     (Normal (Ref 23),
      \<lparr>heap = demo_heap2 @ [error_obj ''boom''], trace = [(0, []), (10, [Ref 25])]\<rparr>)"
    by (simp add: resolve_def demo_call2_0 demo_handle_thenable)
  have b: "resolveAsync demo_env2 demo_tenv (Ref 6) (Ref 24) demo_state2 =
     (Rejected (JStr ''from then''),
      \<lparr>heap = demo_heap2 @ [error_obj ''boom''], trace = [(6, []), (10, [Ref 25])]\<rparr>)"
    by (simp add: resolveAsync_def demo_call2_6 resolution_promise demo_handle_thenable
                  settle_def resolution_thenable demo_thenable_then demo_tenv_def)
  from a b demo_thenable_result show ?thesis by simp
qed

subsection \<open>No handler\<close>

text \<open>
  Claim C1, as amended. Let the operation raise \<open>e\<close> (it throws \<open>e\<close>, or its promise rejects
  with \<open>e\<close>) and let no handler be given. Then \<open>resolve\<close> returns, and \<open>resolveAsync\<close> fulfils
  with, a failure Result whose error is the fallback message of \<open>e\<close>: \<open>e\<close> itself when \<open>e\<close>
  is a string; the \<open>message\<close> property of \<open>e\<close> when \<open>e\<close> is an instance of \<open>Error\<close>; and the
  string \<open>An error occurred\<close> otherwise. The claim gives the message to every value that
  exposes one; the code gives it to the instances of \<open>Error\<close> only, and an object that has
  a \<open>message\<close> property without being an instance of \<open>Error\<close> gets the fixed string.
\<close>

theorem fallback_message_without_handler:
  assumes "call env fn [] s = (c, s1)"
      and "c = Throw e \<or> c = Normal (Promise i (Rejected e))"
  shows
   "\<exists>r s2. resolveAsync env tenv fn JUndefined s = (Fulfilled r, s2) \<and>
      (c = Throw e \<longrightarrow> resolve env fn JUndefined s = (Normal r, s2)) \<and>
      handleError env e JUndefined s1 = (Normal r, s2) \<and>
      failure_with (heap s2) r
        (case e of
           JStr t \<Rightarrow> JStr t
         | _ \<Rightarrow> if instanceof_Error (heap s1) e then get_prop (heap s1) e ''message''
                else JStr ''An error occurred'')"
proof -
  let ?m = "errMessage (heap s1) e"
  let ?r = "Ref (length (heap s1))"
  let ?s2 = "s1\<lparr>heap := heap s1 @ [err_obj ?m]\<rparr>"
  have h: "handleError env e JUndefined s1 = (Normal ?r, ?s2)"
    by (simp add: handleError_absent err_eq)
  have m: "?m = (case e of
           JStr t \<Rightarrow> JStr t
         | _ \<Rightarrow> if instanceof_Error (heap s1) e then get_prop (heap s1) e ''message''
                else JStr ''An error occurred'')"
    by (cases e) (simp_all add: errMessage_cases)
  have f: "failure_with (heap ?s2) ?r ?m"
    by (simp add: failure_with_new_err)
  have se: "settle tenv (handleError env e JUndefined s1) = (Fulfilled ?r, ?s2)"
    using settle_err [of tenv ?m s1] by (simp add: handleError_absent err_eq)
  have a: "resolveAsync env tenv fn JUndefined s = (Fulfilled ?r, ?s2)"
    using assms se by (auto simp: resolveAsync_def resolution_promise)
  have b: "resolve env fn JUndefined s = (Normal ?r, ?s2)" if "c = Throw e"
    using assms(1) that h by (simp add: resolve_def)
  from a b h f show ?thesis
    unfolding m by blast
qed

lemma demo_error_at_20:
  "instanceof_Error (demo_heap @ [error_obj ''boom'']) (Ref 20)"
  "get_prop (demo_heap @ [error_obj ''boom'']) (Ref 20) ''message'' = JStr ''boom''"
  using obj_at_append_new [of demo_heap "error_obj ''boom''"]
  by (simp_all add: instanceof_Error_def get_prop_def demo_length error_obj_def)

lemma demo_not_error_18:
  "\<not> instanceof_Error demo_heap (Ref 18)"
  "get_prop demo_heap (Ref 18) ''message'' = JStr ''not an Error''"
  by (simp_all add: instanceof_Error_def get_prop_def obj_at_def demo_heap_def)

lemma demo_call_8:
  "call demo_env (Ref 19) [] demo_state =
     (Throw (Ref 18), \<lparr>heap = demo_heap, trace = [(8, [])]\<rparr>)"
  by (simp add: call_def demo_state_def demo_env_def fn_of_def obj_at_def demo_heap_def)

theorem fallback_message_without_handler_witness:
  "call demo_env (Ref 0) [] demo_state =
     (Throw (Ref 20), \<lparr>heap = demo_heap @ [error_obj ''boom''], trace = [(0, [])]\<rparr>) \<and>
   call demo_env (Ref 7) [] demo_state =
     (Throw (JStr ''plain text''), \<lparr>heap = demo_heap, trace = [(7, [])]\<rparr>) \<and>
   (\<exists>r s2. resolve demo_env (Ref 0) JUndefined demo_state = (Normal r, s2) \<and>
            failure_with (heap s2) r (JStr ''boom'')) \<and>
   (\<exists>r s2. resolve demo_env (Ref 7) JUndefined demo_state = (Normal r, s2) \<and>
            failure_with (heap s2) r (JStr ''plain text'')) \<and>
   (\<exists>r s2. resolveAsync demo_env demo_tenv (Ref 6) JUndefined demo_state = (Fulfilled r, s2) \<and>
            failure_with (heap s2) r (JStr ''boom'')) \<and>
   call demo_env (Ref 19) [] demo_state =
     (Throw (Ref 18), \<lparr>heap = demo_heap, trace = [(8, [])]\<rparr>) \<and>
   (\<exists>r s2. resolve demo_env (Ref 19) JUndefined demo_state = (Normal r, s2) \<and>
            failure_with (heap s2) r (JStr ''An error occurred''))"
proof -
  have t: "c = Throw e \<or> c = Normal (Promise i (Rejected e))" if "c = Throw e" for c e i
    using that by simp
  note at_demo = fallback_message_without_handler [where env = demo_env and tenv = demo_tenv]
  have a: "\<exists>r s2. resolve demo_env (Ref 0) JUndefined demo_state = (Normal r, s2) \<and>
            failure_with (heap s2) r (JStr ''boom'')"
    using at_demo [OF demo_call_0 t [OF refl]] demo_error_at_20
    by auto
  have b: "\<exists>r s2. resolve demo_env (Ref 7) JUndefined demo_state = (Normal r, s2) \<and>
            failure_with (heap s2) r (JStr ''plain text'')"
    using at_demo [OF demo_call_7 t [OF refl]]
    by auto
  have r: "Normal (Promise 1 (Rejected (Ref 20))) = Throw (Ref 20) \<or>
           Normal (Promise 1 (Rejected (Ref 20))) = Normal (Promise 1 (Rejected (Ref 20)))"
    by simp
  have c: "\<exists>r s2. resolveAsync demo_env demo_tenv (Ref 6) JUndefined demo_state = (Fulfilled r, s2) \<and>
            failure_with (heap s2) r (JStr ''boom'')"
    using at_demo [OF demo_call_6 r] demo_error_at_20
    by auto
  have d: "\<exists>r s2. resolve demo_env (Ref 19) JUndefined demo_state = (Normal r, s2) \<and>
            failure_with (heap s2) r (JStr ''An error occurred'')"
    using at_demo [OF demo_call_8 t [OF refl]] demo_not_error_18
    by auto
  from demo_call_0 demo_call_7 demo_call_8 a b c d show ?thesis by simp
qed

text \<open>
  The claim as it was stated fails at the thrown object \<^verbatim>\<open>{ message: 'not an Error' }\<close>: it
  exposes a \<open>message\<close> property, and the error of the Result is not that message but the
  fixed string.
\<close>

theorem fallback_message_without_handler_counterexample:
  "call demo_env (Ref 19) [] demo_state =
     (Throw (Ref 18), \<lparr>heap = demo_heap, trace = [(8, [])]\<rparr>) \<and>
   has_prop demo_heap (Ref 18) ''message'' \<and>
   get_prop demo_heap (Ref 18) ''message'' = JStr ''not an Error'' \<and>
   resolve demo_env (Ref 19) JUndefined demo_state =
     (Normal (Ref 20),
      \<lparr>heap = demo_heap @ [err_obj (JStr ''An error occurred'')], trace = [(8, [])]\<rparr>) \<and>
   get_prop (demo_heap @ [err_obj (JStr ''An error occurred'')]) (Ref 20) ''error'' =
     JStr ''An error occurred''"
proof -
  have p: "has_prop demo_heap (Ref 18) ''message''"
    by (simp add: has_prop_def obj_at_def demo_heap_def)
  have m: "errMessage demo_heap (Ref 18) = JStr ''An error occurred''"
    by (simp add: errMessage_cases demo_not_error_18)
  have r: "resolve demo_env (Ref 19) JUndefined demo_state =
     (Normal (Ref 20),
      \<lparr>heap = demo_heap @ [err_obj (JStr ''An error occurred'')], trace = [(8, [])]\<rparr>)"
    by (simp add: resolve_def demo_call_8 handleError_absent m err_eq demo_length)
  have g: "get_prop (demo_heap @ [err_obj (JStr ''An error occurred'')]) (Ref 20) ''error'' =
     JStr ''An error occurred''"
    using obj_at_append_new [of demo_heap "err_obj (JStr ''An error occurred'')"]
    by (simp add: get_prop_def demo_length err_obj_def)
  from demo_call_8 p demo_not_error_18(2) r g show ?thesis by simp
qed

end
